theory Spec2Isabelle
  imports Main "HOL-Library.Word"
begin

section \<open>The DMM command interpreter (dmmcmd.c)\<close>

text \<open>
  The module \<^verbatim>\<open>dmmcmd.c\<close> reads a line from the UART, finds its command in a table
  and runs that command's handler; handlers talk to the DMM, CALIB, ERRORS, SERIALNO,
  UART and PmodOLED modules, none of which is part of this repository's sources.

  The embedding keeps the module's global variables in a record and threads it through
  every function. A call to a collaborator appends an event (the function and its
  arguments) to the \<open>trace\<close> field; what the collaborator returns, or writes through a
  pointer argument, is read from an environment that is handed the whole history of
  calls up to and including this one. The environment is a parameter of every function,
  so each theorem holds for all behaviours of the collaborators.
\<close>

type_synonym u8 = "8 word"

subsection \<open>Constants\<close>

text \<open>The numeric values are the ones the function headers of \<^verbatim>\<open>dmmcmd.c\<close> document.\<close>

definition ERRVAL_SUCCESS :: u8 where "ERRVAL_SUCCESS = 0"
definition ERRVAL_EPROM_WRTIMEOUT :: u8 where "ERRVAL_EPROM_WRTIMEOUT = 0xFF"
definition ERRVAL_CMD_WRONGPARAMS :: u8 where "ERRVAL_CMD_WRONGPARAMS = 0xF9"
definition ERRVAL_DMM_GENERICERROR :: u8 where "ERRVAL_DMM_GENERICERROR = 0xEF"

definition CRLF :: string where "CRLF = [CHR 0x0D, CHR 0x0A]"
definition DQUOTE :: string where "DQUOTE = [CHR 0x22]"

subsection \<open>Command keys and the command table\<close>

datatype cmd_key_t =
    CMD_NONE
  | INVALID
  | CMD_Config
  | CMD_CalibP
  | CMD_CalibN
  | CMD_CalibZ
  | CMD_MeasureRep
  | CMD_MeasureStop
  | CMD_MeasureRaw
  | CMD_MeasureAvg
  | CMD_SaveEPROM
  | CMD_VerifyEPROM
  | CMD_ExportCalib
  | CMD_ImportCalib
  | CMD_MeasureForCalibP
  | CMD_MeasureForCalibN
  | CMD_FinalizeCalibP
  | CMD_FinalizeCalibN
  | CMD_RestoreFactCalibs
  | CMD_ReadSerialNo

definition uartCommands :: "(string \<times> cmd_key_t) list" where
  "uartCommands =
    [(''DMMConfig'', CMD_Config),
     (''DMMCalibP'', CMD_CalibP),
     (''DMMCalibN'', CMD_CalibN),
     (''DMMCalibZ'', CMD_CalibZ),
     (''DMMMeasureRep'', CMD_MeasureRep),
     (''DMMMeasureStop'', CMD_MeasureStop),
     (''DMMMeasureRaw'', CMD_MeasureRaw),
     (''DMMMeasureAvg'', CMD_MeasureAvg),
     (''DMMSaveEPROM'', CMD_SaveEPROM),
     (''DMMVerifyEPROM'', CMD_VerifyEPROM),
     (''DMMExportCalib'', CMD_ExportCalib),
     (''DMMImportCalib'', CMD_ImportCalib),
     (''DMMMeasureForCalibP'', CMD_MeasureForCalibP),
     (''DMMMeasureForCalibN'', CMD_MeasureForCalibN),
     (''DMMFinalizeCalibP'', CMD_FinalizeCalibP),
     (''DMMFinalizeCalibN'', CMD_FinalizeCalibN),
     (''DMMRestoreFactCalibs'', CMD_RestoreFactCalibs),
     (''DMMReadSerialNo'', CMD_ReadSerialNo)]"

definition rgScales :: "string list" where
  "rgScales =
    [''Resistance50M'', ''Resistance5M'', ''Resistance500k'', ''Resistance50k'',
     ''Resistance5k'', ''Resistance500'', ''Resistance50'',
     ''VoltageDC50'', ''VoltageDC5'', ''VoltageDC500m'', ''VoltageDC50m'',
     ''VoltageAC30'', ''VoltageAC5'', ''VoltageAC500m'', ''VoltageAC50m'',
     ''CurrentDC5'', ''CurrentAC5'',
     ''Continuity'', ''Diode'',
     ''CurrentDC500m'', ''CurrentDC50m'', ''CurrentDC5m'', ''CurrentDC500u'',
     ''CurrentAC500m'', ''CurrentAC50m'', ''CurrentAC5m'', ''CurrentAC500u'']"

subsection \<open>Collaborator calls\<close>

text \<open>
  One constructor per collaborator function, carrying the arguments passed by value and
  the content of the buffers passed for reading. \<open>'v\<close> stands for the C types
  \<^verbatim>\<open>double\<close> and \<^verbatim>\<open>float\<close>, whose values the module only moves around.
\<close>

datatype 'v event =
    Ev_UART_GetString
  | Ev_UART_PutString string
  | Ev_DelayAprox10Us int
  | Ev_DMM_SetUseCalib int
  | Ev_DMM_DGetValue
  | Ev_DMM_DGetAvgValue int
  | Ev_DMM_SetScale int
  | Ev_DMM_GetCurrentScale
  | Ev_DMM_FormatValue 'v int
  | Ev_DMM_InterpretValue "string option"
  | Ev_ERRORS_GetPrefixedMessageString u8 "string option" string
  | Ev_CALIB_CalibOnPositive 'v int int
  | Ev_CALIB_CalibOnNegative 'v int int
  | Ev_CALIB_CalibOnZero int
  | Ev_CALIB_WriteAllCalibsToEPROM_User
  | Ev_CALIB_VerifyEPROM
  | Ev_CALIB_ExportCalibs_User
  | Ev_CALIB_ImportCalibCoefficients int 'v 'v
  | Ev_CALIB_MeasureForCalibPositiveVal
  | Ev_CALIB_MeasureForCalibNegativeVal
  | Ev_CALIB_RestoreAllCalibsFromEPROM_Factory
  | Ev_SERIALNO_ReadSerialNoFromEPROM
  | Ev_OLED_ClearBuffer
  | Ev_OLED_SetCursor int int
  | Ev_OLED_PutString string
  | Ev_OLED_Update

text \<open>
  The order in which C evaluates the three \<^verbatim>\<open>DMMCMD_CmdGetNextArg()\<close> calls that
  are the arguments of \<^verbatim>\<open>DMMCMD_CmdImportCalib\<close> is unspecified; \<open>Ord_ijk\<close> says
  that the first, second and third token of the line go to parameter i, j and k.
\<close>

datatype eval_order = Ord_012 | Ord_021 | Ord_102 | Ord_120 | Ord_201 | Ord_210

text \<open>
  The environment. The \<open>out_\<close> fields give, for the call that ends the history, the
  \<^verbatim>\<open>uint8_t\<close> it returns (or stores through its error pointer), the
  \<^verbatim>\<open>int\<close> it returns, the \<^verbatim>\<open>double\<close> values and the string its output
  arguments hold afterwards. \<open>lastErr_after\<close> is the content of the ERRORS module's
  last-error buffer after the call, given its content before: the buffer belongs to
  that module (\<^verbatim>\<open>pszLastErr = ERRORS_GetszLastError()\<close>) and the calibration
  functions write to it. The remaining fields are the C library's conversions of a
  \<^verbatim>\<open>double\<close>, the values of the two macros the sources do not define, the values
  found in locals that were never assigned, and the evaluation order above.
\<close>

record 'v env =
  out_code :: "'v event list \<Rightarrow> u8"
  out_int :: "'v event list \<Rightarrow> int"
  out_val :: "'v event list \<Rightarrow> 'v"
  out_val2 :: "'v event list \<Rightarrow> 'v"
  out_str :: "'v event list \<Rightarrow> string"
  lastErr_after :: "'v event list \<Rightarrow> string \<Rightarrow> string"
  fmt_2f :: "'v \<Rightarrow> string"
  fmt_6lf :: "'v \<Rightarrow> string"
  conv_float :: "string \<Rightarrow> 'v option"
  ERRVAL_EPROM_VERIFY :: u8
  MEASURE_CNT_AVG :: int
  indet_int :: int
  indet_val :: 'v
  arg_order :: eval_order

subsection \<open>Module state\<close>

text \<open>
  The globals of \<^verbatim>\<open>dmmcmd.c\<close>, the buffer \<^verbatim>\<open>pszLastErr\<close> points to, the
  position \<^verbatim>\<open>strtok\<close> keeps between calls, and the trace of collaborator calls.
  Buffer capacities (\<^verbatim>\<open>szMsg[200]\<close>, \<^verbatim>\<open>szVal[20]\<close>) are not modelled: strings
  are lists of characters without the terminating zero.
\<close>

record 'v dmmcmd =
  szMsg :: string
  lastErr :: string
  szVal :: string
  szRefVal :: string
  dRefVal :: 'v
  dMeasuredVal :: 'v
  dispersion :: 'v
  fRepGetVal :: u8
  fRepGetRaw :: u8
  fRepBlock :: u8
  strtok_save :: string
  trace :: "'v event list"

definition call :: "'v env \<Rightarrow> 'v event \<Rightarrow> 'v dmmcmd \<Rightarrow> 'v dmmcmd" where
  "call env e s =
     s\<lparr>lastErr := lastErr_after env (trace s @ [e]) (lastErr s),
       trace := trace s @ [e]\<rparr>"

definition UART_PutString :: "'v env \<Rightarrow> string \<Rightarrow> 'v dmmcmd \<Rightarrow> 'v dmmcmd" where
  "UART_PutString env str s = call env (Ev_UART_PutString str) s"

text \<open>\<^verbatim>\<open>ERRORS_GetPrefixedMessageString(code, arg, szMsg)\<close> rewrites \<^verbatim>\<open>szMsg\<close> in place.\<close>

definition ERRORS_GetPrefixedMessageString ::
  "'v env \<Rightarrow> u8 \<Rightarrow> string option \<Rightarrow> 'v dmmcmd \<Rightarrow> u8 \<times> 'v dmmcmd" where
  "ERRORS_GetPrefixedMessageString env bErrCode arg s =
     (let s1 = call env (Ev_ERRORS_GetPrefixedMessageString bErrCode arg (szMsg s)) s
      in (out_code env (trace s1), s1\<lparr>szMsg := out_str env (trace s1)\<rparr>))"

text \<open>\<^verbatim>\<open>DMM_FormatValue(dVal, buffer, 1)\<close>: the result is the content of the buffer.\<close>

definition DMM_FormatValue :: "'v env \<Rightarrow> 'v \<Rightarrow> 'v dmmcmd \<Rightarrow> string \<times> 'v dmmcmd" where
  "DMM_FormatValue env dVal s =
     (let s1 = call env (Ev_DMM_FormatValue dVal 1) s in (out_str env (trace s1), s1))"

subsection \<open>C library functions\<close>

text \<open>
  \<^verbatim>\<open>strtok\<close>: skip the delimiters, return the characters up to the next delimiter
  (or \<open>None\<close>, for \<^verbatim>\<open>NULL\<close>, when nothing is left) and remember where to go on.
\<close>

definition strtok :: "string \<Rightarrow> string \<Rightarrow> string option \<times> string" where
  "strtok str delim =
     (let s1 = dropWhile (\<lambda>c. c \<in> set delim) str
      in if s1 = [] then (None, [])
         else (Some (takeWhile (\<lambda>c. c \<notin> set delim) s1),
               drop 1 (dropWhile (\<lambda>c. c \<notin> set delim) s1)))"

text \<open>\<^verbatim>\<open>sprintf("%d", n)\<close> for the non-negative values the module prints.\<close>

definition digit_char :: "nat \<Rightarrow> char" where
  "digit_char d = ''0123456789'' ! d"

fun dec :: "nat \<Rightarrow> string" where
  "dec n = (if n < 10 then [digit_char n] else dec (n div 10) @ [digit_char (n mod 10)])"

declare dec.simps [simp del]

text \<open>
  \<^verbatim>\<open>sscanf(str, "%d", &i)\<close> and \<^verbatim>\<open>sscanf(str, "%f", &f)\<close>, as the C standard
  defines them: white space is skipped; when the string ends before any conversion the
  result is \<^verbatim>\<open>EOF\<close> (-1) and nothing is stored; when the next characters are not a
  number the result is 0 and nothing is stored; otherwise the result is 1. The value of
  a decimal integer is computed without a bound (C leaves overflow undefined here); how
  a floating-point number is read is the environment's \<open>conv_float\<close>.
\<close>

definition isspace :: "char \<Rightarrow> bool" where
  "isspace c = (c \<in> set [CHR '' '', CHR 0x09, CHR 0x0A, CHR 0x0B, CHR 0x0C, CHR 0x0D])"

definition isdigit :: "char \<Rightarrow> bool" where
  "isdigit c = (c \<in> set ''0123456789'')"

definition digit_val :: "char \<Rightarrow> int" where
  "digit_val c = int (of_char c) - 48"

definition digits_val :: "string \<Rightarrow> int" where
  "digits_val ds = foldl (\<lambda>acc c. 10 * acc + digit_val c) 0 ds"

definition sscanf_d :: "string \<Rightarrow> int \<times> int option" where
  "sscanf_d str =
     (let s1 = dropWhile isspace str
      in if s1 = [] then (-1, None)
         else let neg = (hd s1 = CHR ''-'');
                  s2 = (if hd s1 = CHR ''-'' \<or> hd s1 = CHR ''+'' then tl s1 else s1);
                  ds = takeWhile isdigit s2
              in if ds = [] then (0, None)
                 else (1, Some (if neg then - digits_val ds else digits_val ds)))"

definition sscanf_f :: "'v env \<Rightarrow> string \<Rightarrow> int \<times> 'v option" where
  "sscanf_f env str =
     (let s1 = dropWhile isspace str
      in if s1 = [] then (-1, None)
         else (case conv_float env s1 of None \<Rightarrow> (0, None) | Some v \<Rightarrow> (1, Some v)))"

subsection \<open>Decoding a line\<close>

text \<open>The \<^verbatim>\<open>for\<close> loop over \<^verbatim>\<open>uartCommands\<close>: the first entry with the same name.\<close>

fun find_cmd :: "(string \<times> cmd_key_t) list \<Rightarrow> string \<Rightarrow> cmd_key_t option" where
  "find_cmd [] szJustCmd = None"
| "find_cmd ((pchCmd, eCmd) # rest) szJustCmd =
     (if szJustCmd = pchCmd then Some eCmd else find_cmd rest szJustCmd)"

definition DMMCMD_CmdDecode :: "string \<Rightarrow> 'v dmmcmd \<Rightarrow> cmd_key_t \<times> 'v dmmcmd" where
  "DMMCMD_CmdDecode szCmd s =
     (let (szJustCmd, save) = strtok szCmd '' '';
          s1 = s\<lparr>strtok_save := save\<rparr>;
          s2 = s1\<lparr>lastErr := []\<rparr>
      in case szJustCmd of
           Some tok \<Rightarrow>
             (case find_cmd uartCommands tok of
                Some eCmd \<Rightarrow> (eCmd, s2)
              | None \<Rightarrow> (INVALID, s2\<lparr>lastErr := ''Unrecognized command:'' @ tok\<rparr>))
         | None \<Rightarrow> (INVALID, s2\<lparr>lastErr := ''Empty command''\<rparr>))"

definition DMMCMD_CmdGetNextArg :: "'v dmmcmd \<Rightarrow> string option \<times> 'v dmmcmd" where
  "DMMCMD_CmdGetNextArg s =
     (let (tok, save) = strtok (strtok_save s) '','' in (tok, s\<lparr>strtok_save := save\<rparr>))"

subsection \<open>The display\<close>

text \<open>
  \<^verbatim>\<open>(16 - strlen(str))/2\<close> is computed in the unsigned 32-bit type of
  \<^verbatim>\<open>strlen\<close>. \<^verbatim>\<open>rgScales[idxScale]\<close> is read for every index other than -1;
  an index outside the array is a fault of the program, the result \<open>None\<close>.
\<close>

definition centre_col :: "string \<Rightarrow> int" where
  "centre_col str = uint ((16 - word_of_nat (length str) :: 32 word) div 2)"

definition DMMCMD_PmodOLEDDisplay :: "'v env \<Rightarrow> string \<Rightarrow> 'v dmmcmd \<Rightarrow> 'v dmmcmd option" where
  "DMMCMD_PmodOLEDDisplay env pszVal s =
     (let s1 = call env Ev_DMM_GetCurrentScale s;
          idxScale = out_int env (trace s1);
          s2 = call env Ev_OLED_ClearBuffer s1;
          shown =
            (if idxScale \<noteq> -1 then
               (if 0 \<le> idxScale \<and> idxScale < int (length rgScales) then
                  (let s3 = call env (Ev_OLED_SetCursor (centre_col (rgScales ! nat idxScale)) 1) s2
                   in Some (call env (Ev_OLED_PutString (rgScales ! nat idxScale)) s3))
                else None)
             else
               (let s3 = call env (Ev_OLED_SetCursor 4 1) s2
                in Some (call env (Ev_OLED_PutString ''No scale'') s3)))
      in case shown of
           None \<Rightarrow> None
         | Some s4 \<Rightarrow>
             (let s5 = call env (Ev_OLED_SetCursor (centre_col pszVal) 3) s4;
                  s6 = call env (Ev_OLED_PutString pszVal) s5
              in Some (call env Ev_OLED_Update s6)))"

subsection \<open>Command handlers\<close>

text \<open>The \<^verbatim>\<open>for\<close> loop over \<^verbatim>\<open>rgScales\<close>: the index of the first equal name.\<close>

fun find_scale :: "string list \<Rightarrow> string \<Rightarrow> nat \<Rightarrow> nat option" where
  "find_scale [] arg0 idxScale = None"
| "find_scale (name # rest) arg0 idxScale =
     (if arg0 = name then Some idxScale else find_scale rest arg0 (Suc idxScale))"

text \<open>
  \<^verbatim>\<open>strcmp(arg0, ...)\<close> reads \<^verbatim>\<open>arg0\<close>: with the \<^verbatim>\<open>NULL\<close> that a line without
  an argument gives, the handler faults (\<open>None\<close>).
\<close>

definition DMMCMD_CmdConfig ::
  "'v env \<Rightarrow> string option \<Rightarrow> 'v dmmcmd \<Rightarrow> (u8 \<times> 'v dmmcmd) option" where
  "DMMCMD_CmdConfig env arg0 s =
     (case arg0 of
        None \<Rightarrow> None
      | Some a \<Rightarrow>
          (case find_scale rgScales a 0 of
             Some idxScale \<Rightarrow>
               (let s1 = call env (Ev_DMM_SetScale (int idxScale)) s;
                    bErrCode = out_code env (trace s1)
                in if bErrCode = ERRVAL_SUCCESS then
                     (let s2 = s1\<lparr>szMsg := ''PASS, Selected scale index is: '' @ dec idxScale @ CRLF\<rparr>
                      in case DMMCMD_PmodOLEDDisplay env ''No value'' s2 of
                           None \<Rightarrow> None
                         | Some s3 \<Rightarrow> Some (bErrCode, UART_PutString env (szMsg s3) s3))
                   else
                     (let (bErrCode', s2) = ERRORS_GetPrefixedMessageString env bErrCode (Some []) s1
                      in Some (bErrCode', UART_PutString env (szMsg s2) s2)))
           | None \<Rightarrow>
               (let s1 = s\<lparr>szMsg := ''FAIL, Missing valid configuration: '' @ DQUOTE @ a @ DQUOTE @ CRLF\<rparr>
                in Some (ERRVAL_SUCCESS, UART_PutString env (szMsg s1) s1))))"

definition DMMCMD_CmdMeasureRep :: "'v env \<Rightarrow> 'v dmmcmd \<Rightarrow> u8 \<times> 'v dmmcmd" where
  "DMMCMD_CmdMeasureRep env s =
     (let s1 = s\<lparr>fRepGetVal := 1\<rparr>;
          s2 = s1\<lparr>fRepGetRaw := 0\<rparr>;
          s3 = s2\<lparr>szMsg := ''Measure repeated''\<rparr>;
          (r, s4) = ERRORS_GetPrefixedMessageString env ERRVAL_SUCCESS (Some []) s3
      in (ERRVAL_SUCCESS, UART_PutString env (szMsg s4) s4))"

definition DMMCMD_CmdMeasureStop :: "'v env \<Rightarrow> 'v dmmcmd \<Rightarrow> u8 \<times> 'v dmmcmd" where
  "DMMCMD_CmdMeasureStop env s =
     (let s1 = s\<lparr>fRepGetVal := 0\<rparr>;
          s2 = s1\<lparr>fRepGetRaw := 0\<rparr>;
          s3 = s2\<lparr>szMsg := ''Stop repeated''\<rparr>;
          (r, s4) = ERRORS_GetPrefixedMessageString env ERRVAL_SUCCESS (Some []) s3
      in (ERRVAL_SUCCESS, UART_PutString env (szMsg s4) s4))"

text \<open>
  \<^verbatim>\<open>szVal\<close> and \<^verbatim>\<open>dMeasuredVal\<close> are locals of the next two handlers, which hide
  the globals of the same name.
\<close>

definition DMMCMD_CmdMeasureRaw :: "'v env \<Rightarrow> 'v dmmcmd \<Rightarrow> u8 \<times> 'v dmmcmd" where
  "DMMCMD_CmdMeasureRaw env s =
     (let s1 = call env (Ev_DMM_SetUseCalib 0) s;
          s2 = call env Ev_DMM_DGetValue s1;
          bErrCode = out_code env (trace s2);
          dMeasuredVal_l = out_val env (trace s2);
          s3 = call env (Ev_DMM_SetUseCalib 1) s2;
          s5 = (if bErrCode = ERRVAL_SUCCESS then
                  (let (szVal_l, s4) = DMM_FormatValue env dMeasuredVal_l s3
                   in s4\<lparr>szMsg := ''Raw Value: '' @ szVal_l @ CRLF\<rparr>)
                else snd (ERRORS_GetPrefixedMessageString env bErrCode (Some []) s3))
      in (bErrCode, UART_PutString env (szMsg s5) s5))"

definition DMMCMD_CmdMeasureAvg :: "'v env \<Rightarrow> 'v dmmcmd \<Rightarrow> u8 \<times> 'v dmmcmd" where
  "DMMCMD_CmdMeasureAvg env s =
     (let s1 = call env (Ev_DMM_DGetAvgValue (MEASURE_CNT_AVG env)) s;
          bErrCode = out_code env (trace s1);
          dMeasuredVal_l = out_val env (trace s1);
          s3 = (if bErrCode = ERRVAL_SUCCESS then
                  (let (szVal_l, s2) = DMM_FormatValue env dMeasuredVal_l s1
                   in s2\<lparr>szMsg := ''Avg. Value: '' @ szVal_l @ CRLF\<rparr>)
                else snd (ERRORS_GetPrefixedMessageString env bErrCode (Some []) s1))
      in (bErrCode, UART_PutString env (szMsg s3) s3))"

text \<open>
  The message the four calibration handlers with a reference value build:
  \<^verbatim>\<open>sprintf\<close> of the global buffers, then the last-error string when it is not empty.
\<close>

definition calib_done_msg :: "'v env \<Rightarrow> string \<Rightarrow> 'v dmmcmd \<Rightarrow> 'v dmmcmd" where
  "calib_done_msg env polarity s =
     (let s1 = s\<lparr>szMsg := ''Calibration on '' @ polarity @ '' done. Reference: '' @ szRefVal s
                    @ '', Measured: '' @ szVal s
                    @ '', Dispersion: '' @ fmt_2f env (dispersion s) @ ''%''\<rparr>
      in if lastErr s1 \<noteq> [] then s1\<lparr>szMsg := szMsg s1 @ '', '' @ lastErr s1\<rparr> else s1)"

definition DMM_InterpretValue :: "'v env \<Rightarrow> string option \<Rightarrow> 'v dmmcmd \<Rightarrow> u8 \<times> 'v dmmcmd" where
  "DMM_InterpretValue env arg0 s =
     (let s1 = call env (Ev_DMM_InterpretValue arg0) s
      in (out_code env (trace s1), s1\<lparr>dRefVal := out_val env (trace s1)\<rparr>))"

definition CALIB_CalibOnPositive :: "'v env \<Rightarrow> int \<Rightarrow> 'v dmmcmd \<Rightarrow> u8 \<times> 'v dmmcmd" where
  "CALIB_CalibOnPositive env bFinal s =
     (let s1 = call env (Ev_CALIB_CalibOnPositive (dRefVal s) bFinal 0) s
      in (out_code env (trace s1),
          s1\<lparr>dMeasuredVal := out_val env (trace s1), dispersion := out_val2 env (trace s1)\<rparr>))"

definition CALIB_CalibOnNegative :: "'v env \<Rightarrow> int \<Rightarrow> 'v dmmcmd \<Rightarrow> u8 \<times> 'v dmmcmd" where
  "CALIB_CalibOnNegative env bFinal s =
     (let s1 = call env (Ev_CALIB_CalibOnNegative (dRefVal s) bFinal 0) s
      in (out_code env (trace s1),
          s1\<lparr>dMeasuredVal := out_val env (trace s1), dispersion := out_val2 env (trace s1)\<rparr>))"

definition format_szRefVal :: "'v env \<Rightarrow> 'v dmmcmd \<Rightarrow> 'v dmmcmd" where
  "format_szRefVal env s = (let (str, s1) = DMM_FormatValue env (dRefVal s) s in s1\<lparr>szRefVal := str\<rparr>)"

definition format_szVal :: "'v env \<Rightarrow> 'v dmmcmd \<Rightarrow> 'v dmmcmd" where
  "format_szVal env s = (let (str, s1) = DMM_FormatValue env (dMeasuredVal s) s in s1\<lparr>szVal := str\<rparr>)"

definition DMMCMD_CmdCalibP :: "'v env \<Rightarrow> string option \<Rightarrow> 'v dmmcmd \<Rightarrow> u8 \<times> 'v dmmcmd" where
  "DMMCMD_CmdCalibP env arg0 s =
     (let (bErrCode, s1) = DMM_InterpretValue env arg0 s
      in if bErrCode = ERRVAL_SUCCESS then
           (let (bErrCode2, s2) = CALIB_CalibOnPositive env 0 s1;
                s3 = (if bErrCode2 = ERRVAL_SUCCESS
                      then calib_done_msg env ''positive'' (format_szVal env (format_szRefVal env s2))
                      else s2);
                s4 = snd (ERRORS_GetPrefixedMessageString env bErrCode2 (Some []) s3)
            in (bErrCode2, UART_PutString env (szMsg s4) s4))
         else
           (let s2 = snd (ERRORS_GetPrefixedMessageString env bErrCode arg0 s1)
            in (bErrCode, UART_PutString env (szMsg s2) s2)))"

definition DMMCMD_CmdCalibN :: "'v env \<Rightarrow> string option \<Rightarrow> 'v dmmcmd \<Rightarrow> u8 \<times> 'v dmmcmd" where
  "DMMCMD_CmdCalibN env arg0 s =
     (let (bErrCode, s1) = DMM_InterpretValue env arg0 s
      in if bErrCode = ERRVAL_SUCCESS then
           (let (bErrCode2, s2) = CALIB_CalibOnNegative env 0 s1;
                s3 = (if bErrCode2 = ERRVAL_SUCCESS
                      then calib_done_msg env ''negative'' (format_szVal env (format_szRefVal env s2))
                      else s2);
                s4 = snd (ERRORS_GetPrefixedMessageString env bErrCode2 (Some []) s3)
            in (bErrCode2, UART_PutString env (szMsg s4) s4))
         else
           (let s2 = snd (ERRORS_GetPrefixedMessageString env bErrCode arg0 s1)
            in (bErrCode, UART_PutString env (szMsg s2) s2)))"

definition DMMCMD_CmdCalibZ :: "'v env \<Rightarrow> 'v dmmcmd \<Rightarrow> u8 \<times> 'v dmmcmd" where
  "DMMCMD_CmdCalibZ env s =
     (let s1 = call env (Ev_CALIB_CalibOnZero 0) s;
          bErrCode = out_code env (trace s1);
          s2 = s1\<lparr>dMeasuredVal := out_val env (trace s1), dispersion := out_val2 env (trace s1)\<rparr>;
          s5 = (if bErrCode = ERRVAL_SUCCESS then
                  (let s3 = format_szVal env s2;
                       s4 = s3\<lparr>szMsg := ''Calibration on zero done. Measured Value: '' @ szVal s3
                                  @ '', Dispersion: '' @ fmt_2f env (dispersion s3) @ ''%''\<rparr>
                   in if lastErr s4 \<noteq> [] then s4\<lparr>szMsg := szMsg s4 @ '', '' @ lastErr s4\<rparr> else s4)
                else s2);
          s6 = snd (ERRORS_GetPrefixedMessageString env bErrCode (Some []) s5)
      in (bErrCode, UART_PutString env (szMsg s6) s6))"

definition DMMCMD_CmdSaveEPROM :: "'v env \<Rightarrow> 'v dmmcmd \<Rightarrow> u8 \<times> 'v dmmcmd" where
  "DMMCMD_CmdSaveEPROM env s =
     (let s1 = call env Ev_CALIB_WriteAllCalibsToEPROM_User s;
          bErrCode = out_code env (trace s1);
          (bErrCode', s2) =
            (if bErrCode \<noteq> ERRVAL_EPROM_WRTIMEOUT
             then (ERRVAL_SUCCESS, s1\<lparr>szMsg := dec (unat bErrCode) @ '' calibrations written to EPROM''\<rparr>)
             else (bErrCode, s1));
          s3 = snd (ERRORS_GetPrefixedMessageString env bErrCode' (Some []) s2)
      in (bErrCode', UART_PutString env (szMsg s3) s3))"

definition DMMCMD_CmdVerifyEPROM :: "'v env \<Rightarrow> 'v dmmcmd \<Rightarrow> u8 \<times> 'v dmmcmd" where
  "DMMCMD_CmdVerifyEPROM env s =
     (let s1 = call env Ev_CALIB_VerifyEPROM s;
          bErrCode = out_code env (trace s1);
          (bErrCode', s2) =
            (if bErrCode = ERRVAL_SUCCESS
             then (bErrCode, s1\<lparr>szMsg := ''EPROM Calibration data is verified''\<rparr>)
             else if bErrCode = ERRVAL_EPROM_VERIFY env
             then (ERRVAL_DMM_GENERICERROR,
                   s1\<lparr>szMsg := ''EPROM Calibration data mismatch values found''\<rparr>)
             else (bErrCode, s1));
          s3 = snd (ERRORS_GetPrefixedMessageString env bErrCode' (Some []) s2)
      in (bErrCode', UART_PutString env (szMsg s3) s3))"

definition DMMCMD_CmdExportCalib :: "'v env \<Rightarrow> 'v dmmcmd \<Rightarrow> u8 \<times> 'v dmmcmd" where
  "DMMCMD_CmdExportCalib env s =
     (let s1 = call env Ev_CALIB_ExportCalibs_User s;
          bErrCode = out_code env (trace s1);
          calExp = out_str env (trace s1);
          s2 = s1\<lparr>szMsg := ''Calibration data is exported''\<rparr>;
          s3 = snd (ERRORS_GetPrefixedMessageString env bErrCode (Some []) s2);
          s4 = UART_PutString env (szMsg s3) s3
      in (bErrCode, UART_PutString env calExp s4))"

text \<open>
  \<^verbatim>\<open>if (!sscanf(...))\<close> takes the error branch when \<^verbatim>\<open>sscanf\<close> returns 0 and only
  then. \<^verbatim>\<open>idxCfg\<close>, \<^verbatim>\<open>fValM\<close> and \<^verbatim>\<open>fValA\<close> have no initialiser: where
  \<^verbatim>\<open>sscanf\<close> stored nothing they hold the environment's indeterminate values.
\<close>

definition DMMCMD_CmdImportCalib ::
  "'v env \<Rightarrow> string option \<Rightarrow> string option \<Rightarrow> string option \<Rightarrow> 'v dmmcmd \<Rightarrow> u8 \<times> 'v dmmcmd" where
  "DMMCMD_CmdImportCalib env arg0 arg1 arg2 s =
     (let (bErrCode, idxCfg, fValM, fValA, s1) =
            (case (arg0, arg1, arg2) of
               (Some a0, Some a1, Some a2) \<Rightarrow>
                 (let (n0, v0) = sscanf_d a0;
                      idxCfg = (case v0 of Some i \<Rightarrow> i | None \<Rightarrow> indet_int env)
                  in if n0 = 0 then
                       (ERRVAL_DMM_GENERICERROR, idxCfg, indet_val env, indet_val env,
                        s\<lparr>szMsg := ''Invalid value, provide an integer number for the first token, corresponding to scale index''\<rparr>)
                     else
                       (let (n1, v1) = sscanf_f env a1;
                            fValM = (case v1 of Some v \<Rightarrow> v | None \<Rightarrow> indet_val env)
                        in if n1 = 0 then
                             (ERRVAL_DMM_GENERICERROR, idxCfg, fValM, indet_val env,
                              s\<lparr>szMsg := ''Invalid value, provide a float number for the second token, corresponding to Mult. coefficient''\<rparr>)
                           else
                             (let (n2, v2) = sscanf_f env a2;
                                  fValA = (case v2 of Some v \<Rightarrow> v | None \<Rightarrow> indet_val env)
                              in if n2 = 0 then
                                   (ERRVAL_DMM_GENERICERROR, idxCfg, fValM, fValA,
                                    s\<lparr>szMsg := ''Invalid value, provide a float number for the third token, corresponding to Add. coefficient''\<rparr>)
                                 else (ERRVAL_SUCCESS, idxCfg, fValM, fValA, s))))
             | _ \<Rightarrow> (ERRVAL_CMD_WRONGPARAMS, indet_int env, indet_val env, indet_val env, s));
          (bErrCode', s2) =
            (if bErrCode = ERRVAL_SUCCESS
             then (let s' = call env (Ev_CALIB_ImportCalibCoefficients idxCfg fValM fValA) s1
                   in (out_code env (trace s'), s'))
             else (bErrCode, s1));
          s3 = snd (ERRORS_GetPrefixedMessageString env bErrCode' (Some []) s2)
      in (bErrCode', UART_PutString env (szMsg s3) s3))"

text \<open>\<^verbatim>\<open>dMeasuredVal\<close> is a local of the next two handlers; \<^verbatim>\<open>szVal\<close> is the global.\<close>

definition DMMCMD_CmdMeasureForCalibP :: "'v env \<Rightarrow> 'v dmmcmd \<Rightarrow> u8 \<times> 'v dmmcmd" where
  "DMMCMD_CmdMeasureForCalibP env s =
     (let s1 = call env Ev_CALIB_MeasureForCalibPositiveVal s;
          bErrCode = out_code env (trace s1);
          dMeasuredVal_l = out_val env (trace s1);
          s3 = (if bErrCode = ERRVAL_SUCCESS then
                  (let (str, s2) = DMM_FormatValue env dMeasuredVal_l s1
                   in s2\<lparr>szVal := str,
                         szMsg := ''Calibration positive measurement done. Measured Value: '' @ str\<rparr>)
                else s1);
          s4 = snd (ERRORS_GetPrefixedMessageString env bErrCode (Some []) s3)
      in (bErrCode, UART_PutString env (szMsg s4) s4))"

definition DMMCMD_CmdMeasureForCalibN :: "'v env \<Rightarrow> 'v dmmcmd \<Rightarrow> u8 \<times> 'v dmmcmd" where
  "DMMCMD_CmdMeasureForCalibN env s =
     (let s1 = call env Ev_CALIB_MeasureForCalibNegativeVal s;
          bErrCode = out_code env (trace s1);
          dMeasuredVal_l = out_val env (trace s1);
          s3 = (if bErrCode = ERRVAL_SUCCESS then
                  (let (str, s2) = DMM_FormatValue env dMeasuredVal_l s1
                   in s2\<lparr>szVal := str,
                         szMsg := ''Calibration negative measurement done. Measured Value: '' @ str\<rparr>)
                else s1);
          s4 = snd (ERRORS_GetPrefixedMessageString env bErrCode (Some []) s3)
      in (bErrCode, UART_PutString env (szMsg s4) s4))"

definition DMMCMD_CmdFinalizeCalibP :: "'v env \<Rightarrow> string option \<Rightarrow> 'v dmmcmd \<Rightarrow> u8 \<times> 'v dmmcmd" where
  "DMMCMD_CmdFinalizeCalibP env arg0 s =
     (let (bErrCode, s1) = DMM_InterpretValue env arg0 s
      in if bErrCode = ERRVAL_SUCCESS then
           (let (bErrCode2, s2) = CALIB_CalibOnPositive env 1 (format_szRefVal env s1);
                s3 = (if bErrCode2 = ERRVAL_SUCCESS
                      then calib_done_msg env ''positive'' (format_szVal env s2)
                      else s2);
                s4 = snd (ERRORS_GetPrefixedMessageString env bErrCode2 (Some []) s3)
            in (bErrCode2, UART_PutString env (szMsg s4) s4))
         else
           (let s2 = snd (ERRORS_GetPrefixedMessageString env bErrCode arg0 s1)
            in (bErrCode, UART_PutString env (szMsg s2) s2)))"

definition DMMCMD_CmdFinalizeCalibN :: "'v env \<Rightarrow> string option \<Rightarrow> 'v dmmcmd \<Rightarrow> u8 \<times> 'v dmmcmd" where
  "DMMCMD_CmdFinalizeCalibN env arg0 s =
     (let (bErrCode, s1) = DMM_InterpretValue env arg0 s
      in if bErrCode = ERRVAL_SUCCESS then
           (let (bErrCode2, s2) = CALIB_CalibOnNegative env 1 (format_szRefVal env s1);
                s3 = (if bErrCode2 = ERRVAL_SUCCESS
                      then calib_done_msg env ''negative'' (format_szVal env s2)
                      else s2);
                s4 = snd (ERRORS_GetPrefixedMessageString env bErrCode2 (Some []) s3)
            in (bErrCode2, UART_PutString env (szMsg s4) s4))
         else
           (let s2 = snd (ERRORS_GetPrefixedMessageString env bErrCode arg0 s1)
            in (bErrCode, UART_PutString env (szMsg s2) s2)))"

definition DMMCMD_CmdRestoreFactCalib :: "'v env \<Rightarrow> 'v dmmcmd \<Rightarrow> u8 \<times> 'v dmmcmd" where
  "DMMCMD_CmdRestoreFactCalib env s =
     (let s1 = call env Ev_CALIB_RestoreAllCalibsFromEPROM_Factory s;
          bErrCode = out_code env (trace s1);
          s2 = s1\<lparr>szMsg := ''Calibration data restored from FACTORY EPROM''\<rparr>;
          s3 = snd (ERRORS_GetPrefixedMessageString env bErrCode (Some []) s2)
      in (bErrCode, UART_PutString env (szMsg s3) s3))"

definition DMMCMD_CmdReadSerialNo :: "'v env \<Rightarrow> 'v dmmcmd \<Rightarrow> u8 \<times> 'v dmmcmd" where
  "DMMCMD_CmdReadSerialNo env s =
     (let s1 = call env Ev_SERIALNO_ReadSerialNoFromEPROM s;
          bErrCode = out_code env (trace s1);
          szSerialNo = out_str env (trace s1);
          s2 = (if bErrCode = ERRVAL_SUCCESS
                then s1\<lparr>szMsg := ''SerialNo = '' @ DQUOTE @ szSerialNo @ DQUOTE\<rparr>
                else s1);
          s3 = snd (ERRORS_GetPrefixedMessageString env bErrCode (Some []) s2)
      in (bErrCode, UART_PutString env (szMsg s3) s3))"

subsection \<open>The repeated command\<close>

definition DMMCMD_ProcessRepeatedCmd :: "'v env \<Rightarrow> 'v dmmcmd \<Rightarrow> (u8 \<times> 'v dmmcmd) option" where
  "DMMCMD_ProcessRepeatedCmd env s =
     (if (fRepGetVal s \<noteq> 0 \<or> fRepGetRaw s \<noteq> 0) \<and> fRepBlock s = 0 then
        (let s1 = (if fRepGetRaw s \<noteq> 0 then call env (Ev_DMM_SetUseCalib 0) s else s);
             s2 = call env Ev_DMM_DGetValue s1;
             bErrCode = out_code env (trace s2);
             s3 = s2\<lparr>dMeasuredVal := out_val env (trace s2)\<rparr>;
             s4 = call env (Ev_DMM_SetUseCalib 1) s3
         in if bErrCode = ERRVAL_SUCCESS then
              (if fRepGetVal s4 \<noteq> 0 then
                 (let s5 = format_szVal env s4;
                      s6 = s5\<lparr>szMsg := ''Value: '' @ szVal s5 @ CRLF\<rparr>
                  in case DMMCMD_PmodOLEDDisplay env (szVal s6) s6 of
                       None \<Rightarrow> None
                     | Some s7 \<Rightarrow> Some (bErrCode, UART_PutString env (szMsg s7) s7))
               else
                 (let s5 = s4\<lparr>szMsg := ''Raw Value: '' @ fmt_6lf env (dMeasuredVal s4) @ CRLF\<rparr>
                  in Some (bErrCode, UART_PutString env (szMsg s5) s5)))
            else
              (let (bErrCode', s5) = ERRORS_GetPrefixedMessageString env bErrCode (Some []) s4
               in Some (bErrCode', UART_PutString env (szMsg s5) s5)))
      else Some (ERRVAL_SUCCESS, s))"

subsection \<open>Dispatch and the poll cycle\<close>

fun place_args :: "eval_order \<Rightarrow> 'a \<Rightarrow> 'a \<Rightarrow> 'a \<Rightarrow> 'a \<times> 'a \<times> 'a" where
  "place_args Ord_012 t1 t2 t3 = (t1, t2, t3)"
| "place_args Ord_021 t1 t2 t3 = (t1, t3, t2)"
| "place_args Ord_102 t1 t2 t3 = (t2, t1, t3)"
| "place_args Ord_120 t1 t2 t3 = (t3, t1, t2)"
| "place_args Ord_201 t1 t2 t3 = (t2, t3, t1)"
| "place_args Ord_210 t1 t2 t3 = (t3, t2, t1)"

text \<open>The \<^verbatim>\<open>switch\<close> of \<^verbatim>\<open>DMMCMD_ProcessCmd\<close>; the handlers' return values are dropped.\<close>

fun ProcessCmd_switch :: "'v env \<Rightarrow> cmd_key_t \<Rightarrow> 'v dmmcmd \<Rightarrow> 'v dmmcmd option" where
  "ProcessCmd_switch env CMD_Config s =
     (let (arg0, s1) = DMMCMD_CmdGetNextArg s in map_option snd (DMMCMD_CmdConfig env arg0 s1))"
| "ProcessCmd_switch env CMD_CalibP s =
     (let (arg0, s1) = DMMCMD_CmdGetNextArg s in Some (snd (DMMCMD_CmdCalibP env arg0 s1)))"
| "ProcessCmd_switch env CMD_CalibN s =
     (let (arg0, s1) = DMMCMD_CmdGetNextArg s in Some (snd (DMMCMD_CmdCalibN env arg0 s1)))"
| "ProcessCmd_switch env CMD_CalibZ s = Some (snd (DMMCMD_CmdCalibZ env s))"
| "ProcessCmd_switch env CMD_MeasureRep s = Some (snd (DMMCMD_CmdMeasureRep env s))"
| "ProcessCmd_switch env CMD_MeasureRaw s = Some (snd (DMMCMD_CmdMeasureRaw env s))"
| "ProcessCmd_switch env CMD_MeasureStop s = Some (snd (DMMCMD_CmdMeasureStop env s))"
| "ProcessCmd_switch env CMD_MeasureAvg s = Some (snd (DMMCMD_CmdMeasureAvg env s))"
| "ProcessCmd_switch env CMD_SaveEPROM s = Some (snd (DMMCMD_CmdSaveEPROM env s))"
| "ProcessCmd_switch env CMD_VerifyEPROM s = Some (snd (DMMCMD_CmdVerifyEPROM env s))"
| "ProcessCmd_switch env CMD_ExportCalib s = Some (snd (DMMCMD_CmdExportCalib env s))"
| "ProcessCmd_switch env CMD_ImportCalib s =
     (let (t1, s1) = DMMCMD_CmdGetNextArg s;
          (t2, s2) = DMMCMD_CmdGetNextArg s1;
          (t3, s3) = DMMCMD_CmdGetNextArg s2;
          (arg0, arg1, arg2) = place_args (arg_order env) t1 t2 t3
      in Some (snd (DMMCMD_CmdImportCalib env arg0 arg1 arg2 s3)))"
| "ProcessCmd_switch env CMD_MeasureForCalibP s = Some (snd (DMMCMD_CmdMeasureForCalibP env s))"
| "ProcessCmd_switch env CMD_MeasureForCalibN s = Some (snd (DMMCMD_CmdMeasureForCalibN env s))"
| "ProcessCmd_switch env CMD_FinalizeCalibP s =
     (let (arg0, s1) = DMMCMD_CmdGetNextArg s in Some (snd (DMMCMD_CmdFinalizeCalibP env arg0 s1)))"
| "ProcessCmd_switch env CMD_FinalizeCalibN s =
     (let (arg0, s1) = DMMCMD_CmdGetNextArg s in Some (snd (DMMCMD_CmdFinalizeCalibN env arg0 s1)))"
| "ProcessCmd_switch env CMD_RestoreFactCalibs s = Some (snd (DMMCMD_CmdRestoreFactCalib env s))"
| "ProcessCmd_switch env CMD_ReadSerialNo s = Some (snd (DMMCMD_CmdReadSerialNo env s))"
| "ProcessCmd_switch env CMD_NONE s = Some s"
| "ProcessCmd_switch env INVALID s = Some s"

definition DMMCMD_ProcessCmd :: "'v env \<Rightarrow> cmd_key_t \<Rightarrow> 'v dmmcmd \<Rightarrow> 'v dmmcmd option" where
  "DMMCMD_ProcessCmd env keyCmd s =
     map_option (call env (Ev_DelayAprox10Us 1000)) (ProcessCmd_switch env keyCmd s)"

text \<open>\<^verbatim>\<open>DMMCMD_ProcessCmd(DMMCMD_CmdDecode(uartCmd))\<close>, the processing of one line.\<close>

definition process_line :: "'v env \<Rightarrow> string \<Rightarrow> 'v dmmcmd \<Rightarrow> 'v dmmcmd option" where
  "process_line env uartCmd s =
     (let (keyCmd, s1) = DMMCMD_CmdDecode uartCmd s in DMMCMD_ProcessCmd env keyCmd s1)"

definition DMMCMD_CheckForCommand :: "'v env \<Rightarrow> 'v dmmcmd \<Rightarrow> 'v dmmcmd option" where
  "DMMCMD_CheckForCommand env s =
     (let s1 = call env Ev_UART_GetString s;
          cchi = out_int env (trace s1);
          uartCmd = out_str env (trace s1)
      in if cchi > 0 then
           (let s2 = s1\<lparr>szMsg := ''Received command: '' @ uartCmd @ CRLF\<rparr>;
                s3 = UART_PutString env (szMsg s2) s2
            in case process_line env uartCmd s3 of
                 None \<Rightarrow> None
               | Some s4 \<Rightarrow> map_option snd (DMMCMD_ProcessRepeatedCmd env (s4\<lparr>fRepBlock := 0\<rparr>)))
         else map_option snd (DMMCMD_ProcessRepeatedCmd env s1))"

text \<open>
  The states the program can be in between two poll cycles: the three flags start at 0
  (their initialisers; \<^verbatim>\<open>DMMCMD_Init\<close> does not assign them), and each cycle that
  returns leads to the next state.
\<close>

inductive reachable :: "'v env \<Rightarrow> 'v dmmcmd \<Rightarrow> bool" for env :: "'v env" where
  reachable_init:
    "fRepGetVal s = 0 \<Longrightarrow> fRepGetRaw s = 0 \<Longrightarrow> fRepBlock s = 0 \<Longrightarrow> reachable env s"
| reachable_poll:
    "reachable env s \<Longrightarrow> DMMCMD_CheckForCommand env s = Some s' \<Longrightarrow> reachable env s'"

code_pred reachable .

subsection \<open>Reading a trace\<close>

text \<open>The strings sent on the UART, in order.\<close>

fun uart_out :: "'v event list \<Rightarrow> string list" where
  "uart_out [] = []"
| "uart_out (Ev_UART_PutString str # es) = str # uart_out es"
| "uart_out (e # es) = uart_out es"

fun is_SetUseCalib :: "'v event \<Rightarrow> bool" where
  "is_SetUseCalib (Ev_DMM_SetUseCalib n) = True"
| "is_SetUseCalib e = False"

text \<open>
  Whether the DMM module applies the calibration after the calls of a trace, given what
  it did before: the argument of the last \<^verbatim>\<open>DMM_SetUseCalib\<close>.
\<close>

fun use_calib_after :: "int \<Rightarrow> 'v event list \<Rightarrow> int" where
  "use_calib_after u [] = u"
| "use_calib_after u (Ev_DMM_SetUseCalib n # es) = use_calib_after n es"
| "use_calib_after u (e # es) = use_calib_after u es"

text \<open>The three flags of the repeated command.\<close>

definition flags :: "'v dmmcmd \<Rightarrow> u8 \<times> u8 \<times> u8" where
  "flags s = (fRepGetVal s, fRepGetRaw s, fRepBlock s)"

subsection \<open>A test bench\<close>

text \<open>
  A concrete environment, to run the module on: the UART delivers the given lines, one
  per poll cycle, and then nothing; \<^verbatim>\<open>DMM_DGetValue\<close> and
  \<^verbatim>\<open>CALIB_WriteAllCalibsToEPROM_User\<close> answer the given code and every other call
  succeeds; the measured value is 5; the current scale is the last one set; messages
  are prefixed with \<^verbatim>\<open>OK\<close> or \<^verbatim>\<open>ERROR\<close>, the prefixes \<^verbatim>\<open>main.c\<close> sets.
  The state is the one the initialisers of the globals give.
\<close>

definition bench_line :: "string list \<Rightarrow> int event list \<Rightarrow> string" where
  "bench_line lines h =
     (let k = length (filter (\<lambda>e. e = Ev_UART_GetString) h)
      in if 0 < k \<and> k \<le> length lines then lines ! (k - 1) else [])"

definition bench_scale :: "int event list \<Rightarrow> int" where
  "bench_scale h = foldl (\<lambda>i e. case e of Ev_DMM_SetScale j \<Rightarrow> j | _ \<Rightarrow> i) (-1) h"

definition bench_env :: "string list \<Rightarrow> u8 \<Rightarrow> int env" where
  "bench_env lines code =
     \<lparr>out_code = (\<lambda>h. case last h of
                        Ev_ERRORS_GetPrefixedMessageString c a m \<Rightarrow> c
                      | Ev_DMM_DGetValue \<Rightarrow> code
                      | Ev_CALIB_WriteAllCalibsToEPROM_User \<Rightarrow> code
                      | _ \<Rightarrow> 0),
      out_int = (\<lambda>h. case last h of
                       Ev_UART_GetString \<Rightarrow> int (length (bench_line lines h))
                     | Ev_DMM_GetCurrentScale \<Rightarrow> bench_scale h
                     | _ \<Rightarrow> 0),
      out_val = (\<lambda>h. 5),
      out_val2 = (\<lambda>h. 0),
      out_str = (\<lambda>h. case last h of
                       Ev_UART_GetString \<Rightarrow> bench_line lines h
                     | Ev_DMM_FormatValue v n \<Rightarrow> dec (nat v) @ '' V''
                     | Ev_ERRORS_GetPrefixedMessageString c a m \<Rightarrow>
                         (if c = 0 then ''OK, '' @ m @ CRLF
                          else ''ERROR, code '' @ dec (unat c) @ CRLF)
                     | _ \<Rightarrow> []),
      lastErr_after = (\<lambda>h e. e),
      fmt_2f = (\<lambda>v. dec (nat v) @ ''.00''),
      fmt_6lf = (\<lambda>v. dec (nat v) @ ''.000000''),
      conv_float = (\<lambda>str. if takeWhile isdigit str = [] then None
                           else Some (digits_val (takeWhile isdigit str))),
      ERRVAL_EPROM_VERIFY = 0xF7,
      MEASURE_CNT_AVG = 20,
      indet_int = 12345,
      indet_val = 777,
      arg_order = Ord_012\<rparr>"

definition bench_state :: "int dmmcmd" where
  "bench_state =
     \<lparr>szMsg = [], lastErr = [], szVal = [], szRefVal = [],
      dRefVal = 0, dMeasuredVal = 0, dispersion = 0,
      fRepGetVal = 0, fRepGetRaw = 0, fRepBlock = 0,
      strtok_save = [], trace = []\<rparr>"

section \<open>Basic facts\<close>

lemma find_cmd_None: "find_cmd cmds tok = None \<longleftrightarrow> tok \<notin> fst ` set cmds"
  by (induction cmds) (auto split: if_splits)

lemma find_cmd_Some: "find_cmd cmds tok = Some k \<Longrightarrow> (tok, k) \<in> set cmds"
  by (induction cmds) (auto split: if_splits)

lemma find_cmd_not_INVALID: "find_cmd uartCommands tok = Some k \<Longrightarrow> k \<noteq> INVALID"
  by (drule find_cmd_Some) (auto simp: uartCommands_def)

lemma find_scale_None: "find_scale names a i = None \<longleftrightarrow> a \<notin> set names"
  by (induction names arbitrary: i) auto

lemma uart_out_append: "uart_out (xs @ ys) = uart_out xs @ uart_out ys"
  by (induction xs rule: uart_out.induct) auto

lemma trace_call [simp]: "trace (call env e s) = trace s @ [e]"
  by (simp add: call_def)

lemma trace_UART_PutString [simp]:
  "trace (UART_PutString env str s) = trace s @ [Ev_UART_PutString str]"
  by (simp add: UART_PutString_def)

lemma szMsg_call [simp]: "szMsg (call env e s) = szMsg s"
  by (simp add: call_def)

lemma szMsg_UART_PutString [simp]: "szMsg (UART_PutString env str s) = szMsg s"
  by (simp add: UART_PutString_def)

section \<open>Decoding\<close>

text \<open>
  An empty line and a line with an unknown command give the same key: the only
  difference is the text left in the last-error buffer.
\<close>

theorem C3_empty_line_counterexample:
  "fst (DMMCMD_CmdDecode [] bench_state) = INVALID \<and>
   fst (DMMCMD_CmdDecode ''foo'' bench_state) = INVALID"
  by code_simp

text \<open>
  C3, as the code has it: when the first token of the line, delimited by spaces, is
  none of the names of the command table, \<open>DMMCMD_CmdDecode\<close> returns \<open>INVALID\<close>
  and leaves \<^verbatim>\<open>Unrecognized command:\<close> followed by the token in the last-error
  buffer; when the line has no token it returns \<open>INVALID\<close> as well, and leaves
  \<^verbatim>\<open>Empty command\<close> there. Nothing else of the state changes but the position
  \<^verbatim>\<open>strtok\<close> keeps.
\<close>

theorem C3_decode_unknown_or_empty:
  "(strtok line '' '' = (Some tok, rest) \<and> tok \<notin> fst ` set uartCommands \<longrightarrow>
      DMMCMD_CmdDecode line s =
        (INVALID, s\<lparr>lastErr := ''Unrecognized command:'' @ tok, strtok_save := rest\<rparr>))
   \<and> (fst (strtok line '' '') = None \<longrightarrow>
      DMMCMD_CmdDecode line s =
        (INVALID, s\<lparr>lastErr := ''Empty command'', strtok_save := snd (strtok line '' '')\<rparr>))"
  by (auto simp: DMMCMD_CmdDecode_def Let_def find_cmd_None [THEN iffD2]
      split: prod.splits option.splits)

theorem C3_decode_unknown_or_empty_witness:
  "strtok ''foo bar'' '' '' = (Some ''foo'', ''bar'') \<and> ''foo'' \<notin> fst ` set uartCommands \<and>
   DMMCMD_CmdDecode ''foo bar'' bench_state =
     (INVALID, bench_state\<lparr>lastErr := ''Unrecognized command:foo'', strtok_save := ''bar''\<rparr>) \<and>
   fst (strtok ''  '' '' '') = None \<and>
   DMMCMD_CmdDecode ''  '' bench_state =
     (INVALID, bench_state\<lparr>lastErr := ''Empty command'', strtok_save := []\<rparr>)"
  using C3_decode_unknown_or_empty [of "''foo bar''" "''foo''" "''bar''" bench_state]
        C3_decode_unknown_or_empty [of "''  ''" "''x''" "[]" bench_state]
  by (simp add: strtok_def uartCommands_def)

text \<open>
  C8: \<open>DMMCMD_CmdDecode\<close> empties the last-error buffer before it looks the command
  up, whatever the line: its result does not depend on what the buffer held, and
  after a recognised command the buffer is empty.
\<close>

theorem C8_decode_clears_last_error:
  "DMMCMD_CmdDecode line (s\<lparr>lastErr := e\<rparr>) = DMMCMD_CmdDecode line s \<and>
   (fst (DMMCMD_CmdDecode line s) \<noteq> INVALID \<longrightarrow> lastErr (snd (DMMCMD_CmdDecode line s)) = [])"
  by (auto simp: DMMCMD_CmdDecode_def Let_def split: prod.splits option.splits)

theorem C8_decode_clears_last_error_witness:
  "DMMCMD_CmdDecode ''DMMMeasureRep'' (bench_state\<lparr>lastErr := ''Mult = 1.5''\<rparr>)
     = DMMCMD_CmdDecode ''DMMMeasureRep'' bench_state \<and>
   fst (DMMCMD_CmdDecode ''DMMMeasureRep'' bench_state) \<noteq> INVALID \<and>
   lastErr (snd (DMMCMD_CmdDecode ''DMMMeasureRep'' (bench_state\<lparr>lastErr := ''Mult = 1.5''\<rparr>))) = []"
  using C8_decode_clears_last_error
          [where line = "''DMMMeasureRep''" and s = bench_state and e = "''Mult = 1.5''"]
  by (simp add: DMMCMD_CmdDecode_def strtok_def uartCommands_def)

section \<open>The DMMConfig handler\<close>

lemma CmdConfig_unknown:
  "a \<notin> set rgScales \<Longrightarrow>
   DMMCMD_CmdConfig env (Some a) s =
     Some (ERRVAL_SUCCESS,
           UART_PutString env (''FAIL, Missing valid configuration: '' @ DQUOTE @ a @ DQUOTE @ CRLF)
             (s\<lparr>szMsg := ''FAIL, Missing valid configuration: '' @ DQUOTE @ a @ DQUOTE @ CRLF\<rparr>))"
  by (simp add: DMMCMD_CmdConfig_def find_scale_None [THEN iffD2] Let_def)

lemma PmodOLEDDisplay_in_range:
  assumes "- 1 \<le> out_int env (trace s @ [Ev_DMM_GetCurrentScale])"
      and "out_int env (trace s @ [Ev_DMM_GetCurrentScale]) < 27"
  shows "\<exists>s' mid. DMMCMD_PmodOLEDDisplay env v s = Some s' \<and> trace s' = trace s @ mid \<and>
           uart_out mid = [] \<and> szMsg s' = szMsg s"
  using assms
  by (auto simp: DMMCMD_PmodOLEDDisplay_def Let_def rgScales_def)

lemma PmodOLEDDisplay_Some:
  "DMMCMD_PmodOLEDDisplay env v s = Some s' \<Longrightarrow>
   \<exists>mid. trace s' = trace s @ mid \<and> uart_out mid = [] \<and> filter is_SetUseCalib mid = [] \<and>
         Ev_DMM_DGetValue \<notin> set mid \<and> szMsg s' = szMsg s"
  by (auto simp: DMMCMD_PmodOLEDDisplay_def Let_def split: if_splits)

lemma Decode_DMMConfig_VoltageDC5:
  "DMMCMD_CmdDecode ''DMMConfig VoltageDC5'' s =
     (CMD_Config, s\<lparr>lastErr := [], strtok_save := ''VoltageDC5''\<rparr>)"
  by (simp add: DMMCMD_CmdDecode_def strtok_def uartCommands_def)

lemma Decode_DMMConfig_BogusScale:
  "DMMCMD_CmdDecode ''DMMConfig BogusScale'' s =
     (CMD_Config, s\<lparr>lastErr := [], strtok_save := ''BogusScale''\<rparr>)"
  by (simp add: DMMCMD_CmdDecode_def strtok_def uartCommands_def)

lemma find_scale_VoltageDC5: "find_scale rgScales ''VoltageDC5'' 0 = Some 8"
  by (simp add: rgScales_def)

lemma dec_8: "dec 8 = ''8''"
  by (simp add: dec.simps digit_char_def)

lemma CmdConfig_VoltageDC5:
  assumes "out_code env (trace s @ [Ev_DMM_SetScale 8]) = ERRVAL_SUCCESS"
      and "- 1 \<le> out_int env (trace s @ [Ev_DMM_SetScale 8, Ev_DMM_GetCurrentScale])"
      and "out_int env (trace s @ [Ev_DMM_SetScale 8, Ev_DMM_GetCurrentScale]) < 27"
  shows "\<exists>s' mid. DMMCMD_CmdConfig env (Some ''VoltageDC5'') s = Some (ERRVAL_SUCCESS, s') \<and>
           szMsg s' = ''PASS, Selected scale index is: 8'' @ CRLF \<and>
           trace s' = trace s @ [Ev_DMM_SetScale 8] @ mid
                        @ [Ev_UART_PutString (''PASS, Selected scale index is: 8'' @ CRLF)] \<and>
           uart_out mid = []"
proof -
  let ?s2 = "(call env (Ev_DMM_SetScale 8) s)\<lparr>szMsg := ''PASS, Selected scale index is: 8'' @ CRLF\<rparr>"
  from assms(2,3) obtain s3 mid
    where d: "DMMCMD_PmodOLEDDisplay env ''No value'' ?s2 = Some s3"
      and t: "trace s3 = trace ?s2 @ mid" and u: "uart_out mid = []"
      and m: "szMsg s3 = szMsg ?s2"
    using PmodOLEDDisplay_in_range [of env ?s2 "''No value''"] by auto
  have "DMMCMD_CmdConfig env (Some ''VoltageDC5'') s
          = Some (ERRVAL_SUCCESS, UART_PutString env (szMsg s3) s3)"
    using assms(1) d
    by (simp add: DMMCMD_CmdConfig_def find_scale_VoltageDC5 dec_8 Let_def)
  with t u m show ?thesis by simp
qed


text \<open>
  \<^verbatim>\<open>VoltageDC5\<close> is the ninth name of \<^verbatim>\<open>rgScales\<close>, index 8; index 7 is
  \<^verbatim>\<open>VoltageDC50\<close>. One poll cycle of the test bench on the line shows the message.
\<close>

theorem C4_scale_index_counterexample:
  "map_option (uart_out \<circ> trace)
     (DMMCMD_CheckForCommand (bench_env [''DMMConfig VoltageDC5''] 0) bench_state)
     = Some [''Received command: DMMConfig VoltageDC5'' @ CRLF,
             ''PASS, Selected scale index is: 8'' @ CRLF] \<and>
   rgScales ! 7 = ''VoltageDC50''"
  by code_simp

text \<open>
  C4, as the code has it: processing the line \<^verbatim>\<open>DMMConfig VoltageDC5\<close> calls
  \<^verbatim>\<open>DMM_SetScale(8)\<close> and, when that call succeeds (and the display code is handed
  a scale index of the catalogue or -1), sends \<^verbatim>\<open>PASS, Selected scale index is: 8\<close>
  as the only UART line of the command. Processing \<^verbatim>\<open>DMMConfig BogusScale\<close> sends
  \<^verbatim>\<open>FAIL, Missing valid configuration: "BogusScale"\<close> and calls no collaborator but
  the UART and the delay; so does the handler for every argument that is not a name
  of the catalogue: \<^verbatim>\<open>DMM_SetScale\<close> is not called.
\<close>

theorem C4_config_line:
  "(out_code env (trace s @ [Ev_DMM_SetScale 8]) = ERRVAL_SUCCESS \<and>
    out_int env (trace s @ [Ev_DMM_SetScale 8, Ev_DMM_GetCurrentScale]) \<in> {-1..<27} \<longrightarrow>
      (\<exists>s' mid. process_line env ''DMMConfig VoltageDC5'' s = Some s' \<and>
         szMsg s' = ''PASS, Selected scale index is: 8'' @ CRLF \<and>
         trace s' = trace s @ [Ev_DMM_SetScale 8] @ mid
                      @ [Ev_UART_PutString (''PASS, Selected scale index is: 8'' @ CRLF),
                         Ev_DelayAprox10Us 1000] \<and>
         uart_out mid = []))
   \<and> (\<exists>s'. process_line env ''DMMConfig BogusScale'' s = Some s' \<and>
         trace s' = trace s @
           [Ev_UART_PutString (''FAIL, Missing valid configuration: '' @ DQUOTE @ ''BogusScale'' @ DQUOTE @ CRLF),
            Ev_DelayAprox10Us 1000])
   \<and> (a \<notin> set rgScales \<longrightarrow>
        (\<exists>s'. DMMCMD_CmdConfig env (Some a) s = Some (ERRVAL_SUCCESS, s') \<and>
           trace s' = trace s @
             [Ev_UART_PutString (''FAIL, Missing valid configuration: '' @ DQUOTE @ a @ DQUOTE @ CRLF)]))"
proof (intro conjI impI)
  assume h: "out_code env (trace s @ [Ev_DMM_SetScale 8]) = ERRVAL_SUCCESS \<and>
    out_int env (trace s @ [Ev_DMM_SetScale 8, Ev_DMM_GetCurrentScale]) \<in> {-1..<27}"
  let ?s0 = "s\<lparr>lastErr := [], strtok_save := []\<rparr>"
  from h obtain s1 mid
    where c: "DMMCMD_CmdConfig env (Some ''VoltageDC5'') ?s0 = Some (ERRVAL_SUCCESS, s1)"
      and m: "szMsg s1 = ''PASS, Selected scale index is: 8'' @ CRLF"
      and t: "trace s1 = trace ?s0 @ [Ev_DMM_SetScale 8] @ mid
                @ [Ev_UART_PutString (''PASS, Selected scale index is: 8'' @ CRLF)]"
      and u: "uart_out mid = []"
    using CmdConfig_VoltageDC5 [of env ?s0] by auto
  have "process_line env ''DMMConfig VoltageDC5'' s = Some (call env (Ev_DelayAprox10Us 1000) s1)"
    using c
    by (simp add: process_line_def Decode_DMMConfig_VoltageDC5 DMMCMD_ProcessCmd_def
        DMMCMD_CmdGetNextArg_def strtok_def)
  with m t u show "\<exists>s' mid. process_line env ''DMMConfig VoltageDC5'' s = Some s' \<and>
         szMsg s' = ''PASS, Selected scale index is: 8'' @ CRLF \<and>
         trace s' = trace s @ [Ev_DMM_SetScale 8] @ mid
                      @ [Ev_UART_PutString (''PASS, Selected scale index is: 8'' @ CRLF),
                         Ev_DelayAprox10Us 1000] \<and>
         uart_out mid = []"
    by simp
next
  have "''BogusScale'' \<notin> set rgScales" by (simp add: rgScales_def)
  then show "\<exists>s'. process_line env ''DMMConfig BogusScale'' s = Some s' \<and>
         trace s' = trace s @
           [Ev_UART_PutString (''FAIL, Missing valid configuration: '' @ DQUOTE @ ''BogusScale'' @ DQUOTE @ CRLF),
            Ev_DelayAprox10Us 1000]"
    by (simp add: process_line_def Decode_DMMConfig_BogusScale DMMCMD_ProcessCmd_def
        DMMCMD_CmdGetNextArg_def strtok_def CmdConfig_unknown)
next
  assume "a \<notin> set rgScales"
  then show "\<exists>s'. DMMCMD_CmdConfig env (Some a) s = Some (ERRVAL_SUCCESS, s') \<and>
           trace s' = trace s @
             [Ev_UART_PutString (''FAIL, Missing valid configuration: '' @ DQUOTE @ a @ DQUOTE @ CRLF)]"
    by (simp add: CmdConfig_unknown)
qed

theorem C4_config_line_witness:
  "out_code (bench_env [] 0) (trace bench_state @ [Ev_DMM_SetScale 8]) = ERRVAL_SUCCESS \<and>
   out_int (bench_env [] 0) (trace bench_state @ [Ev_DMM_SetScale 8, Ev_DMM_GetCurrentScale])
     \<in> {-1..<27} \<and>
   ''Volts'' \<notin> set rgScales \<and>
   map_option szMsg (process_line (bench_env [] 0) ''DMMConfig VoltageDC5'' bench_state)
     = Some (''PASS, Selected scale index is: 8'' @ CRLF) \<and>
   map_option (uart_out \<circ> trace) (process_line (bench_env [] 0) ''DMMConfig BogusScale'' bench_state)
     = Some [''FAIL, Missing valid configuration: '' @ DQUOTE @ ''BogusScale'' @ DQUOTE @ CRLF] \<and>
   map_option (trace \<circ> snd) (DMMCMD_CmdConfig (bench_env [] 0) (Some ''Volts'') bench_state)
     = Some [Ev_UART_PutString (''FAIL, Missing valid configuration: '' @ DQUOTE @ ''Volts'' @ DQUOTE @ CRLF)]"
proof -
  have h1: "out_code (bench_env [] 0) (trace bench_state @ [Ev_DMM_SetScale 8]) = ERRVAL_SUCCESS"
    by (simp add: bench_env_def ERRVAL_SUCCESS_def)
  have h2: "out_int (bench_env [] 0) (trace bench_state @ [Ev_DMM_SetScale 8, Ev_DMM_GetCurrentScale])
     \<in> {-1..<27}"
    by (simp add: bench_env_def bench_state_def bench_scale_def)
  have h3: "''Volts'' \<notin> set rgScales"
    by (simp add: rgScales_def)
  have t: "trace bench_state = []"
    by (simp add: bench_state_def)
  from C4_config_line [of "bench_env [] 0" bench_state "''Volts''"] h1 h2 h3 t
  show ?thesis by auto
qed

lemma CmdConfig_known_success:
  assumes "find_scale rgScales b 0 = Some i"
      and "out_code env (trace s @ [Ev_DMM_SetScale (int i)]) = ERRVAL_SUCCESS"
      and "DMMCMD_CmdConfig env (Some b) s = Some (r, s')"
  shows "r = ERRVAL_SUCCESS"
proof (cases "DMMCMD_PmodOLEDDisplay env ''No value''
         ((call env (Ev_DMM_SetScale (int i)) s)\<lparr>szMsg := ''PASS, Selected scale index is: '' @ dec i @ CRLF\<rparr>)")
  case None
  with assms show ?thesis by (simp add: DMMCMD_CmdConfig_def Let_def)
next
  case (Some s3)
  with assms show ?thesis by (simp add: DMMCMD_CmdConfig_def Let_def)
qed

text \<open>
  C10: for every argument that is not a name of the scale catalogue,
  \<open>DMMCMD_CmdConfig\<close> returns \<open>ERRVAL_SUCCESS\<close>, which is 0, after sending the
  \<^verbatim>\<open>FAIL\<close> line; a successful selection returns the same value.
\<close>

theorem C10_config_unknown_returns_success:
  "(a \<notin> set rgScales \<longrightarrow>
      (\<exists>s'. DMMCMD_CmdConfig env (Some a) s = Some (ERRVAL_SUCCESS, s') \<and>
         last (trace s') =
           Ev_UART_PutString (''FAIL, Missing valid configuration: '' @ DQUOTE @ a @ DQUOTE @ CRLF)))
   \<and> (find_scale rgScales b 0 = Some i \<and>
       out_code env (trace s @ [Ev_DMM_SetScale (int i)]) = ERRVAL_SUCCESS \<and>
       DMMCMD_CmdConfig env (Some b) s = Some (r, s'') \<longrightarrow> r = ERRVAL_SUCCESS)
   \<and> ERRVAL_SUCCESS = 0"
proof (intro conjI impI)
  assume "a \<notin> set rgScales"
  then show "\<exists>s'. DMMCMD_CmdConfig env (Some a) s = Some (ERRVAL_SUCCESS, s') \<and>
         last (trace s') =
           Ev_UART_PutString (''FAIL, Missing valid configuration: '' @ DQUOTE @ a @ DQUOTE @ CRLF)"
    by (simp add: CmdConfig_unknown)
next
  assume "find_scale rgScales b 0 = Some i \<and>
       out_code env (trace s @ [Ev_DMM_SetScale (int i)]) = ERRVAL_SUCCESS \<and>
       DMMCMD_CmdConfig env (Some b) s = Some (r, s'')"
  then show "r = ERRVAL_SUCCESS"
    using CmdConfig_known_success [of b i env s r s''] by blast
next
  show "ERRVAL_SUCCESS = 0" by (simp add: ERRVAL_SUCCESS_def)
qed

theorem C10_config_unknown_returns_success_witness:
  "''BogusScale'' \<notin> set rgScales \<and>
   map_option fst (DMMCMD_CmdConfig (bench_env [] 0) (Some ''BogusScale'') bench_state) = Some 0 \<and>
   find_scale rgScales ''VoltageDC5'' 0 = Some 8 \<and>
   out_code (bench_env [] 0) (trace bench_state @ [Ev_DMM_SetScale (int 8)]) = ERRVAL_SUCCESS \<and>
   map_option fst (DMMCMD_CmdConfig (bench_env [] 0) (Some ''VoltageDC5'') bench_state) = Some 0"
proof -
  have h1: "''BogusScale'' \<notin> set rgScales"
    by (simp add: rgScales_def)
  have h2: "find_scale rgScales ''VoltageDC5'' 0 = Some 8"
    by (simp add: rgScales_def)
  have h3: "out_code (bench_env [] 0) (trace bench_state @ [Ev_DMM_SetScale (int 8)]) = ERRVAL_SUCCESS"
    by (simp add: bench_env_def ERRVAL_SUCCESS_def)
  have "DMMCMD_CmdConfig (bench_env [] 0) (Some ''VoltageDC5'') bench_state \<noteq> None"
    by code_simp
  then obtain r s2
    where h4: "DMMCMD_CmdConfig (bench_env [] 0) (Some ''VoltageDC5'') bench_state = Some (r, s2)"
    by auto
  note inst = C10_config_unknown_returns_success
         [of "''BogusScale''" "bench_env [] 0" bench_state "''VoltageDC5''" 8 r s2]
  from inst h2 h3 h4 have r: "r = 0" by simp
  from inst h1 have "map_option fst (DMMCMD_CmdConfig (bench_env [] 0) (Some ''BogusScale'') bench_state) = Some 0"
    by auto
  with h1 h2 h3 h4 r show ?thesis by simp
qed

section \<open>Printing a number\<close>

lemma digits_val_snoc: "digits_val (ds @ [c]) = 10 * digits_val ds + digit_val c"
  by (simp add: digits_val_def)

lemma digit_val_digit_char: "d < 10 \<Longrightarrow> digit_val (digit_char d) = int d"
proof -
  assume "d < 10"
  then have "d \<in> {0, 1, 2, 3, 4, 5, 6, 7, 8, 9}" by auto
  then show ?thesis by (auto simp: digit_val_def digit_char_def)
qed

lemma digits_val_dec: "digits_val (dec n) = int n"
proof (induction n rule: dec.induct)
  case (1 n)
  show ?case
  proof (cases "n < 10")
    case True
    then show ?thesis
      using digits_val_snoc [of "[]" "digit_char n"]
      by (simp add: dec.simps [of n] digit_val_digit_char digits_val_def)
  next
    case False
    then show ?thesis
    proof -
      have "10 * int (n div 10) + int (n mod 10) = int n"
        by presburger
      then show ?thesis
        using 1 False by (simp add: dec.simps [of n] digits_val_snoc digit_val_digit_char)
    qed
  qed
qed

section \<open>Traces and flags of the helpers\<close>

lemma use_calib_after_append:
  "use_calib_after u (xs @ ys) = use_calib_after (use_calib_after u xs) ys"
  by (induction u xs rule: use_calib_after.induct) auto

lemma use_calib_after_none: "filter is_SetUseCalib es = [] \<Longrightarrow> use_calib_after u es = u"
  by (induction u es rule: use_calib_after.induct) auto

lemma trace_GetPrefixed [simp]:
  "trace (snd (ERRORS_GetPrefixedMessageString env c a s))
     = trace s @ [Ev_ERRORS_GetPrefixedMessageString c a (szMsg s)]"
  by (simp add: ERRORS_GetPrefixedMessageString_def Let_def)

lemma szMsg_GetPrefixed [simp]:
  "szMsg (snd (ERRORS_GetPrefixedMessageString env c a s))
     = out_str env (trace s @ [Ev_ERRORS_GetPrefixedMessageString c a (szMsg s)])"
  by (simp add: ERRORS_GetPrefixedMessageString_def Let_def)

lemma trace_FormatValue [simp]:
  "trace (snd (DMM_FormatValue env v s)) = trace s @ [Ev_DMM_FormatValue v 1]"
  by (simp add: DMM_FormatValue_def Let_def)

lemma trace_format_szVal [simp]:
  "trace (format_szVal env s) = trace s @ [Ev_DMM_FormatValue (dMeasuredVal s) 1]"
  by (simp add: format_szVal_def split_beta)

lemma flags_call [simp]: "flags (call env e s) = flags s"
  by (simp add: flags_def call_def)

lemma flags_update [simp]:
  "flags (s\<lparr>szMsg := m\<rparr>) = flags s"
  "flags (s\<lparr>lastErr := l\<rparr>) = flags s"
  "flags (s\<lparr>szVal := a\<rparr>) = flags s"
  "flags (s\<lparr>szRefVal := b\<rparr>) = flags s"
  "flags (s\<lparr>dRefVal := c\<rparr>) = flags s"
  "flags (s\<lparr>dMeasuredVal := d\<rparr>) = flags s"
  "flags (s\<lparr>dispersion := f\<rparr>) = flags s"
  "flags (s\<lparr>strtok_save := g\<rparr>) = flags s"
  "flags (s\<lparr>trace := h\<rparr>) = flags s"
  by (simp_all add: flags_def)

lemma flags_UART_PutString [simp]: "flags (UART_PutString env str s) = flags s"
  by (simp add: UART_PutString_def)

lemma flags_GetPrefixed [simp]:
  "flags (snd (ERRORS_GetPrefixedMessageString env c a s)) = flags s"
  by (simp add: ERRORS_GetPrefixedMessageString_def Let_def)

lemma flags_FormatValue [simp]: "flags (snd (DMM_FormatValue env v s)) = flags s"
  by (simp add: DMM_FormatValue_def Let_def)

lemma flags_format_szVal [simp]: "flags (format_szVal env s) = flags s"
  by (simp add: format_szVal_def split_beta)

lemma flags_format_szRefVal [simp]: "flags (format_szRefVal env s) = flags s"
  by (simp add: format_szRefVal_def split_beta)

lemma flags_calib_done_msg [simp]: "flags (calib_done_msg env p s) = flags s"
  by (simp add: calib_done_msg_def Let_def)

lemma flags_InterpretValue [simp]: "flags (snd (DMM_InterpretValue env a s)) = flags s"
  by (simp add: DMM_InterpretValue_def Let_def)

lemma flags_CalibOnPositive [simp]: "flags (snd (CALIB_CalibOnPositive env b s)) = flags s"
  by (simp add: CALIB_CalibOnPositive_def Let_def)

lemma flags_CalibOnNegative [simp]: "flags (snd (CALIB_CalibOnNegative env b s)) = flags s"
  by (simp add: CALIB_CalibOnNegative_def Let_def)

lemma flags_GetNextArg [simp]: "flags (snd (DMMCMD_CmdGetNextArg s)) = flags s"
  by (simp add: DMMCMD_CmdGetNextArg_def split_beta)

lemma flags_PmodOLEDDisplay:
  "DMMCMD_PmodOLEDDisplay env v s = Some s' \<Longrightarrow> flags s' = flags s"
  by (auto simp: DMMCMD_PmodOLEDDisplay_def Let_def split: if_splits option.splits)

section \<open>Flags of the handlers\<close>

lemma flags_CmdConfig:
  "DMMCMD_CmdConfig env a s = Some (r, s') \<Longrightarrow> flags s' = flags s"
  by (auto simp: DMMCMD_CmdConfig_def Let_def split_beta dest: flags_PmodOLEDDisplay
      split: if_splits option.splits)

lemma flags_CmdMeasureRaw [simp]: "flags (snd (DMMCMD_CmdMeasureRaw env s)) = flags s"
  by (simp add: DMMCMD_CmdMeasureRaw_def Let_def split_beta)

lemma flags_CmdMeasureAvg [simp]: "flags (snd (DMMCMD_CmdMeasureAvg env s)) = flags s"
  by (simp add: DMMCMD_CmdMeasureAvg_def Let_def split_beta)

lemma flags_CmdCalibP [simp]: "flags (snd (DMMCMD_CmdCalibP env a s)) = flags s"
  by (simp add: DMMCMD_CmdCalibP_def Let_def split_beta)

lemma flags_CmdCalibN [simp]: "flags (snd (DMMCMD_CmdCalibN env a s)) = flags s"
  by (simp add: DMMCMD_CmdCalibN_def Let_def split_beta)

lemma flags_CmdCalibZ [simp]: "flags (snd (DMMCMD_CmdCalibZ env s)) = flags s"
  by (simp add: DMMCMD_CmdCalibZ_def Let_def split_beta)

lemma flags_CmdSaveEPROM [simp]: "flags (snd (DMMCMD_CmdSaveEPROM env s)) = flags s"
  by (simp add: DMMCMD_CmdSaveEPROM_def Let_def split_beta)

lemma flags_CmdVerifyEPROM [simp]: "flags (snd (DMMCMD_CmdVerifyEPROM env s)) = flags s"
  by (simp add: DMMCMD_CmdVerifyEPROM_def Let_def split_beta)

lemma flags_CmdExportCalib [simp]: "flags (snd (DMMCMD_CmdExportCalib env s)) = flags s"
  by (simp add: DMMCMD_CmdExportCalib_def Let_def split_beta)

lemma flags_CmdImportCalib [simp]:
  "flags (snd (DMMCMD_CmdImportCalib env a0 a1 a2 s)) = flags s"
  by (simp add: DMMCMD_CmdImportCalib_def Let_def split_beta split: option.splits)

lemma flags_CmdMeasureForCalibP [simp]:
  "flags (snd (DMMCMD_CmdMeasureForCalibP env s)) = flags s"
  by (simp add: DMMCMD_CmdMeasureForCalibP_def Let_def split_beta)

lemma flags_CmdMeasureForCalibN [simp]:
  "flags (snd (DMMCMD_CmdMeasureForCalibN env s)) = flags s"
  by (simp add: DMMCMD_CmdMeasureForCalibN_def Let_def split_beta)

lemma flags_CmdFinalizeCalibP [simp]:
  "flags (snd (DMMCMD_CmdFinalizeCalibP env a s)) = flags s"
  by (simp add: DMMCMD_CmdFinalizeCalibP_def Let_def split_beta)

lemma flags_CmdFinalizeCalibN [simp]:
  "flags (snd (DMMCMD_CmdFinalizeCalibN env a s)) = flags s"
  by (simp add: DMMCMD_CmdFinalizeCalibN_def Let_def split_beta)

lemma flags_CmdRestoreFactCalib [simp]:
  "flags (snd (DMMCMD_CmdRestoreFactCalib env s)) = flags s"
  by (simp add: DMMCMD_CmdRestoreFactCalib_def Let_def split_beta)

lemma flags_CmdReadSerialNo [simp]: "flags (snd (DMMCMD_CmdReadSerialNo env s)) = flags s"
  by (simp add: DMMCMD_CmdReadSerialNo_def Let_def split_beta)

lemma flags_CmdMeasureRep [simp]:
  "flags (snd (DMMCMD_CmdMeasureRep env s)) = (1, 0, fRepBlock s)"
  by (simp add: DMMCMD_CmdMeasureRep_def Let_def split_beta) (simp add: flags_def)

lemma flags_CmdMeasureStop [simp]:
  "flags (snd (DMMCMD_CmdMeasureStop env s)) = (0, 0, fRepBlock s)"
  by (simp add: DMMCMD_CmdMeasureStop_def Let_def split_beta) (simp add: flags_def)

lemma flags_ProcessRepeatedCmd:
  "DMMCMD_ProcessRepeatedCmd env s = Some (r, s') \<Longrightarrow> flags s' = flags s"
  by (auto simp: DMMCMD_ProcessRepeatedCmd_def Let_def split_beta dest!: flags_PmodOLEDDisplay
      split: if_splits option.splits)

lemma flags_ProcessCmd_switch:
  "ProcessCmd_switch env k s = Some s' \<Longrightarrow>
   flags s' = (if k = CMD_MeasureRep then (1, 0, fRepBlock s)
               else if k = CMD_MeasureStop then (0, 0, fRepBlock s) else flags s)"
  by (cases k) (auto simp: split_beta Let_def dest: flags_CmdConfig)

lemma flags_ProcessCmd:
  "DMMCMD_ProcessCmd env k s = Some s' \<Longrightarrow>
   flags s' = (if k = CMD_MeasureRep then (1, 0, fRepBlock s)
               else if k = CMD_MeasureStop then (0, 0, fRepBlock s) else flags s)"
  by (auto simp: DMMCMD_ProcessCmd_def dest!: flags_ProcessCmd_switch)

lemma ProcessCmd_trace_end:
  "DMMCMD_ProcessCmd env k s = Some s' \<Longrightarrow> \<exists>pre. trace s' = pre @ [Ev_DelayAprox10Us 1000]"
  by (auto simp: DMMCMD_ProcessCmd_def)

lemma flags_Decode [simp]: "flags (snd (DMMCMD_CmdDecode line s)) = flags s"
  by (simp add: DMMCMD_CmdDecode_def Let_def split: prod.splits option.splits)

section \<open>Raw acquisition\<close>

lemma CmdMeasureRaw_trace:
  "\<exists>rest. trace (snd (DMMCMD_CmdMeasureRaw env s))
            = trace s @ [Ev_DMM_SetUseCalib 0, Ev_DMM_DGetValue, Ev_DMM_SetUseCalib 1] @ rest \<and>
          filter is_SetUseCalib rest = [] \<and> Ev_DMM_DGetValue \<notin> set rest"
  by (simp add: DMMCMD_CmdMeasureRaw_def Let_def split_beta)

lemma ProcessRepeatedCmd_raw_trace:
  assumes "fRepGetRaw s \<noteq> 0" and "fRepBlock s = 0"
      and "DMMCMD_ProcessRepeatedCmd env s = Some (r, s')"
  shows "\<exists>rest. trace s' = trace s @ [Ev_DMM_SetUseCalib 0, Ev_DMM_DGetValue, Ev_DMM_SetUseCalib 1] @ rest \<and>
          filter is_SetUseCalib rest = [] \<and> Ev_DMM_DGetValue \<notin> set rest"
  using assms
  by (auto simp: DMMCMD_ProcessRepeatedCmd_def Let_def split_beta
      split: if_splits option.splits dest!: PmodOLEDDisplay_Some)

lemma ProcessRepeatedCmd_raw_only:
  assumes "fRepGetRaw s \<noteq> 0" and "fRepGetVal s = 0" and "fRepBlock s = 0"
  shows "DMMCMD_ProcessRepeatedCmd env s \<noteq> None"
  using assms
  by (simp add: DMMCMD_ProcessRepeatedCmd_def Let_def split_beta call_def)

lemma use_calib_after_shape:
  assumes "t = pre @ [Ev_DMM_SetUseCalib 0, Ev_DMM_DGetValue, Ev_DMM_SetUseCalib 1] @ rest"
      and "filter is_SetUseCalib rest = []"
  shows "use_calib_after u t = 1"
  using assms by (simp add: use_calib_after_append use_calib_after_none)

text \<open>
  C5: in the one-shot \<open>DMMCMD_CmdMeasureRaw\<close> and in the raw branch of
  \<open>DMMCMD_ProcessRepeatedCmd\<close> the calls are \<^verbatim>\<open>DMM_SetUseCalib(0)\<close>,
  \<^verbatim>\<open>DMM_DGetValue\<close>, \<^verbatim>\<open>DMM_SetUseCalib(1)\<close>, in this order and with nothing
  in between, whatever the acquisition answers; no later call of the invocation changes
  the setting or acquires again, so the calibration is in use when the handler
  returns. The raw branch alone always returns.
\<close>

theorem C5_raw_acquisition_reenables_calibration:
  "(\<exists>rest. trace (snd (DMMCMD_CmdMeasureRaw env s))
             = trace s @ [Ev_DMM_SetUseCalib 0, Ev_DMM_DGetValue, Ev_DMM_SetUseCalib 1] @ rest \<and>
           filter is_SetUseCalib rest = [] \<and> Ev_DMM_DGetValue \<notin> set rest)
   \<and> use_calib_after u (trace (snd (DMMCMD_CmdMeasureRaw env s))) = 1
   \<and> (fRepGetRaw s \<noteq> 0 \<and> fRepBlock s = 0 \<and> DMMCMD_ProcessRepeatedCmd env s = Some (r, s') \<longrightarrow>
        (\<exists>rest. trace s' = trace s @ [Ev_DMM_SetUseCalib 0, Ev_DMM_DGetValue, Ev_DMM_SetUseCalib 1] @ rest \<and>
           filter is_SetUseCalib rest = [] \<and> Ev_DMM_DGetValue \<notin> set rest) \<and>
        use_calib_after u (trace s') = 1)
   \<and> (fRepGetRaw s \<noteq> 0 \<and> fRepGetVal s = 0 \<and> fRepBlock s = 0 \<longrightarrow>
        DMMCMD_ProcessRepeatedCmd env s \<noteq> None)"
proof (intro conjI impI)
  show a: "\<exists>rest. trace (snd (DMMCMD_CmdMeasureRaw env s))
             = trace s @ [Ev_DMM_SetUseCalib 0, Ev_DMM_DGetValue, Ev_DMM_SetUseCalib 1] @ rest \<and>
           filter is_SetUseCalib rest = [] \<and> Ev_DMM_DGetValue \<notin> set rest"
    by (rule CmdMeasureRaw_trace)
  then show "use_calib_after u (trace (snd (DMMCMD_CmdMeasureRaw env s))) = 1"
    using use_calib_after_shape by blast
next
  assume h: "fRepGetRaw s \<noteq> 0 \<and> fRepBlock s = 0 \<and> DMMCMD_ProcessRepeatedCmd env s = Some (r, s')"
  then show b: "\<exists>rest. trace s' = trace s @ [Ev_DMM_SetUseCalib 0, Ev_DMM_DGetValue, Ev_DMM_SetUseCalib 1] @ rest \<and>
           filter is_SetUseCalib rest = [] \<and> Ev_DMM_DGetValue \<notin> set rest"
    using ProcessRepeatedCmd_raw_trace by blast
  then show "use_calib_after u (trace s') = 1"
    using use_calib_after_shape by blast
next
  assume "fRepGetRaw s \<noteq> 0 \<and> fRepGetVal s = 0 \<and> fRepBlock s = 0"
  then show "DMMCMD_ProcessRepeatedCmd env s \<noteq> None"
    using ProcessRepeatedCmd_raw_only by blast
qed

theorem C5_raw_acquisition_reenables_calibration_witness:
  "fRepGetRaw (bench_state\<lparr>fRepGetRaw := 1\<rparr>) \<noteq> 0 \<and>
   fRepGetVal (bench_state\<lparr>fRepGetRaw := 1\<rparr>) = 0 \<and>
   fRepBlock (bench_state\<lparr>fRepGetRaw := 1\<rparr>) = 0 \<and>
   DMMCMD_ProcessRepeatedCmd (bench_env [] 250) (bench_state\<lparr>fRepGetRaw := 1\<rparr>) \<noteq> None \<and>
   use_calib_after 0
     (trace (snd (the (DMMCMD_ProcessRepeatedCmd (bench_env [] 250) (bench_state\<lparr>fRepGetRaw := 1\<rparr>))))) = 1 \<and>
   use_calib_after 0 (trace (snd (DMMCMD_CmdMeasureRaw (bench_env [] 250) bench_state))) = 1"
proof -
  let ?s = "bench_state\<lparr>fRepGetRaw := 1\<rparr>"
  have h: "fRepGetRaw ?s \<noteq> 0" "fRepGetVal ?s = 0" "fRepBlock ?s = 0"
    by (simp_all add: bench_state_def)
  note inst = C5_raw_acquisition_reenables_calibration
    [of "bench_env [] 250" ?s 0
        "fst (the (DMMCMD_ProcessRepeatedCmd (bench_env [] 250) ?s))"
        "snd (the (DMMCMD_ProcessRepeatedCmd (bench_env [] 250) ?s))"]
  from inst h have n: "DMMCMD_ProcessRepeatedCmd (bench_env [] 250) ?s \<noteq> None"
    by blast
  then have e: "DMMCMD_ProcessRepeatedCmd (bench_env [] 250) ?s
     = Some (fst (the (DMMCMD_ProcessRepeatedCmd (bench_env [] 250) ?s)),
             snd (the (DMMCMD_ProcessRepeatedCmd (bench_env [] 250) ?s)))"
    by auto
  from inst h e have "use_calib_after 0
     (trace (snd (the (DMMCMD_ProcessRepeatedCmd (bench_env [] 250) ?s)))) = 1"
    by blast
  moreover have "use_calib_after 0 (trace (snd (DMMCMD_CmdMeasureRaw (bench_env [] 250) bench_state))) = 1"
    using C5_raw_acquisition_reenables_calibration [of "bench_env [] 250" bench_state 0] by blast
  ultimately show ?thesis using h n by blast
qed

section \<open>The repeated command on a failed acquisition\<close>

lemma ProcessRepeatedCmd_error:
  assumes "fRepGetVal s \<noteq> 0 \<or> fRepGetRaw s \<noteq> 0" and "fRepBlock s = 0"
      and "out_code env (trace s @ (if fRepGetRaw s \<noteq> 0 then [Ev_DMM_SetUseCalib 0] else [])
                           @ [Ev_DMM_DGetValue]) = c"
      and "c \<noteq> ERRVAL_SUCCESS"
  shows "\<exists>r s' pre. DMMCMD_ProcessRepeatedCmd env s = Some (r, s') \<and> flags s' = flags s \<and>
           trace s' = pre @ [Ev_ERRORS_GetPrefixedMessageString c (Some []) (szMsg s),
                             Ev_UART_PutString (out_str env
                               (pre @ [Ev_ERRORS_GetPrefixedMessageString c (Some []) (szMsg s)]))]"
proof (cases "fRepGetRaw s \<noteq> 0")
  case True
  with assms show ?thesis
    by (simp add: DMMCMD_ProcessRepeatedCmd_def Let_def split_beta)
next
  case False
  with assms show ?thesis
    by (simp add: DMMCMD_ProcessRepeatedCmd_def Let_def split_beta)
qed

text \<open>
  C6: when the acquisition of the repeated command answers an error code, the step
  hands that code to \<^verbatim>\<open>ERRORS_GetPrefixedMessageString\<close>, sends the composed message
  on the UART and leaves the flags as they were; the step never changes a flag; and a
  command other than \<^verbatim>\<open>DMMMeasureStop\<close>, \<^verbatim>\<open>DMMMeasureRep\<close> and
  \<^verbatim>\<open>DMMMeasureRaw\<close> leaves the flags as they were, too.
\<close>

theorem C6_failed_repeat_keeps_flags:
  "((fRepGetVal s \<noteq> 0 \<or> fRepGetRaw s \<noteq> 0) \<and> fRepBlock s = 0 \<and>
    out_code env (trace s @ (if fRepGetRaw s \<noteq> 0 then [Ev_DMM_SetUseCalib 0] else [])
                    @ [Ev_DMM_DGetValue]) = c \<and> c \<noteq> ERRVAL_SUCCESS \<longrightarrow>
      (\<exists>r s' pre. DMMCMD_ProcessRepeatedCmd env s = Some (r, s') \<and> flags s' = flags s \<and>
         trace s' = pre @ [Ev_ERRORS_GetPrefixedMessageString c (Some []) (szMsg s),
                           Ev_UART_PutString (out_str env
                             (pre @ [Ev_ERRORS_GetPrefixedMessageString c (Some []) (szMsg s)]))]))
   \<and> (DMMCMD_ProcessRepeatedCmd env s = Some (r, s1) \<longrightarrow> flags s1 = flags s)
   \<and> (DMMCMD_ProcessCmd env k s = Some s2 \<and>
       k \<notin> {CMD_MeasureStop, CMD_MeasureRep, CMD_MeasureRaw} \<longrightarrow> flags s2 = flags s)"
proof (intro conjI impI)
  assume "(fRepGetVal s \<noteq> 0 \<or> fRepGetRaw s \<noteq> 0) \<and> fRepBlock s = 0 \<and>
    out_code env (trace s @ (if fRepGetRaw s \<noteq> 0 then [Ev_DMM_SetUseCalib 0] else [])
                    @ [Ev_DMM_DGetValue]) = c \<and> c \<noteq> ERRVAL_SUCCESS"
  then show "\<exists>r s' pre. DMMCMD_ProcessRepeatedCmd env s = Some (r, s') \<and> flags s' = flags s \<and>
         trace s' = pre @ [Ev_ERRORS_GetPrefixedMessageString c (Some []) (szMsg s),
                           Ev_UART_PutString (out_str env
                             (pre @ [Ev_ERRORS_GetPrefixedMessageString c (Some []) (szMsg s)]))]"
    using ProcessRepeatedCmd_error [of s env c] by blast
next
  assume "DMMCMD_ProcessRepeatedCmd env s = Some (r, s1)"
  then show "flags s1 = flags s" by (rule flags_ProcessRepeatedCmd)
next
  assume "DMMCMD_ProcessCmd env k s = Some s2 \<and>
       k \<notin> {CMD_MeasureStop, CMD_MeasureRep, CMD_MeasureRaw}"
  then show "flags s2 = flags s"
    using flags_ProcessCmd [of env k s s2] by auto
qed


theorem C6_failed_repeat_keeps_flags_witness:
  "fRepGetVal (bench_state\<lparr>fRepGetVal := 1\<rparr>) \<noteq> 0 \<and>
   fRepGetRaw (bench_state\<lparr>fRepGetVal := 1\<rparr>) = 0 \<and>
   fRepBlock (bench_state\<lparr>fRepGetVal := 1\<rparr>) = 0 \<and>
   out_code (bench_env [] 250) (trace (bench_state\<lparr>fRepGetVal := 1\<rparr>) @ [Ev_DMM_DGetValue]) = 250 \<and>
   250 \<noteq> ERRVAL_SUCCESS \<and>
   map_option (flags \<circ> snd) (DMMCMD_ProcessRepeatedCmd (bench_env [] 250) (bench_state\<lparr>fRepGetVal := 1\<rparr>))
     = Some (1, 0, 0) \<and>
   CMD_MeasureAvg \<notin> {CMD_MeasureStop, CMD_MeasureRep, CMD_MeasureRaw} \<and>
   map_option flags (DMMCMD_ProcessCmd (bench_env [] 250) CMD_MeasureAvg (bench_state\<lparr>fRepGetVal := 1\<rparr>))
     = Some (1, 0, 0)"
proof -
  let ?s = "bench_state\<lparr>fRepGetVal := 1\<rparr>"
  let ?E = "bench_env [] 250"
  have h1: "fRepGetVal ?s \<noteq> 0 \<or> fRepGetRaw ?s \<noteq> 0" and h2: "fRepBlock ?s = 0"
    by (simp_all add: bench_state_def)
  have h3: "out_code ?E (trace ?s @ (if fRepGetRaw ?s \<noteq> 0 then [Ev_DMM_SetUseCalib 0] else [])
              @ [Ev_DMM_DGetValue]) = 250"
    by (simp add: bench_state_def bench_env_def)
  have h4: "250 \<noteq> ERRVAL_SUCCESS"
    by (simp add: ERRVAL_SUCCESS_def)
  have f: "flags ?s = (1, 0, 0)"
    by (simp add: flags_def bench_state_def)
  have "DMMCMD_ProcessCmd ?E CMD_MeasureAvg ?s \<noteq> None"
    by (simp add: DMMCMD_ProcessCmd_def)
  then obtain s2 where p: "DMMCMD_ProcessCmd ?E CMD_MeasureAvg ?s = Some s2"
    by auto
  note inst = C6_failed_repeat_keeps_flags [of ?s ?E 250 0 ?s CMD_MeasureAvg s2]
  from inst h1 h2 h3 h4 f
  have a: "map_option (flags \<circ> snd) (DMMCMD_ProcessRepeatedCmd ?E ?s) = Some (1, 0, 0)"
    by auto
  from inst p f have b: "map_option flags (DMMCMD_ProcessCmd ?E CMD_MeasureAvg ?s) = Some (1, 0, 0)"
    by auto
  have g: "fRepGetVal ?s \<noteq> 0" "fRepGetRaw ?s = 0"
          "out_code ?E (trace ?s @ [Ev_DMM_DGetValue]) = 250"
    by (simp_all add: bench_state_def bench_env_def)
  from g h2 h4 a b show ?thesis by simp
qed

section \<open>The DMMSaveEPROM handler\<close>

text \<open>
  C7: when \<^verbatim>\<open>CALIB_WriteAllCalibsToEPROM_User\<close> returns a value N other than the
  write time-out code, \<open>DMMCMD_CmdSaveEPROM\<close> returns success and the message it hands
  to the message composer, with the success code, is N in decimal followed by
  \<^verbatim>\<open> calibrations written to EPROM\<close>; what the composer makes of it is sent on the
  UART. When the collaborator returns the time-out code, the handler returns that
  code and hands it to the composer.
\<close>

theorem C7_save_eprom_reports_count:
  "n = out_code env (trace s @ [Ev_CALIB_WriteAllCalibsToEPROM_User]) \<Longrightarrow>
   (n \<noteq> ERRVAL_EPROM_WRTIMEOUT \<longrightarrow>
      fst (DMMCMD_CmdSaveEPROM env s) = ERRVAL_SUCCESS \<and>
      (let h = trace s @ [Ev_CALIB_WriteAllCalibsToEPROM_User,
                          Ev_ERRORS_GetPrefixedMessageString ERRVAL_SUCCESS (Some [])
                            (dec (unat n) @ '' calibrations written to EPROM'')]
       in trace (snd (DMMCMD_CmdSaveEPROM env s)) = h @ [Ev_UART_PutString (out_str env h)]) \<and>
      digits_val (dec (unat n)) = int (unat n))
   \<and> (n = ERRVAL_EPROM_WRTIMEOUT \<longrightarrow>
      fst (DMMCMD_CmdSaveEPROM env s) = ERRVAL_EPROM_WRTIMEOUT \<and>
      (let h = trace s @ [Ev_CALIB_WriteAllCalibsToEPROM_User,
                          Ev_ERRORS_GetPrefixedMessageString ERRVAL_EPROM_WRTIMEOUT (Some []) (szMsg s)]
       in trace (snd (DMMCMD_CmdSaveEPROM env s)) = h @ [Ev_UART_PutString (out_str env h)]))"
  by (simp add: DMMCMD_CmdSaveEPROM_def Let_def split_beta digits_val_dec)

theorem C7_save_eprom_reports_count_witness:
  "(3::u8) = out_code (bench_env [] 3) (trace bench_state @ [Ev_CALIB_WriteAllCalibsToEPROM_User]) \<and>
   (3::u8) \<noteq> ERRVAL_EPROM_WRTIMEOUT \<and>
   DMMCMD_CmdSaveEPROM (bench_env [] 3) bench_state =
     (0, bench_state
          \<lparr>szMsg := ''OK, 3 calibrations written to EPROM'' @ CRLF,
            trace := [Ev_CALIB_WriteAllCalibsToEPROM_User,
                      Ev_ERRORS_GetPrefixedMessageString 0 (Some []) ''3 calibrations written to EPROM'',
                      Ev_UART_PutString (''OK, 3 calibrations written to EPROM'' @ CRLF)]\<rparr>) \<and>
   (255::u8) = out_code (bench_env [] 255) (trace bench_state @ [Ev_CALIB_WriteAllCalibsToEPROM_User]) \<and>
   (255::u8) = ERRVAL_EPROM_WRTIMEOUT \<and>
   fst (DMMCMD_CmdSaveEPROM (bench_env [] 255) bench_state) = 255 \<and>
   uart_out (trace (snd (DMMCMD_CmdSaveEPROM (bench_env [] 255) bench_state)))
     = [''ERROR, code 255'' @ CRLF]"
proof -
  have h1: "(3::u8) = out_code (bench_env [] 3) (trace bench_state @ [Ev_CALIB_WriteAllCalibsToEPROM_User])"
    by (simp add: bench_env_def)
  have h2: "(3::u8) \<noteq> ERRVAL_EPROM_WRTIMEOUT"
    by (simp add: ERRVAL_EPROM_WRTIMEOUT_def)
  have h3: "(255::u8) = out_code (bench_env [] 255) (trace bench_state @ [Ev_CALIB_WriteAllCalibsToEPROM_User])"
    by (simp add: bench_env_def)
  have h4: "(255::u8) = ERRVAL_EPROM_WRTIMEOUT"
    by (simp add: ERRVAL_EPROM_WRTIMEOUT_def)
  have c1: "DMMCMD_CmdSaveEPROM (bench_env [] 3) bench_state =
     (0, bench_state
          \<lparr>szMsg := ''OK, 3 calibrations written to EPROM'' @ CRLF,
            trace := [Ev_CALIB_WriteAllCalibsToEPROM_User,
                      Ev_ERRORS_GetPrefixedMessageString 0 (Some []) ''3 calibrations written to EPROM'',
                      Ev_UART_PutString (''OK, 3 calibrations written to EPROM'' @ CRLF)]\<rparr>)"
    by code_simp
  have c2: "uart_out (trace (snd (DMMCMD_CmdSaveEPROM (bench_env [] 255) bench_state)))
     = [''ERROR, code 255'' @ CRLF]"
    by code_simp
  from C7_save_eprom_reports_count [OF h3] h4
  have "fst (DMMCMD_CmdSaveEPROM (bench_env [] 255) bench_state) = 255"
    by simp
  with C7_save_eprom_reports_count [OF h1] h1 h2 h3 h4 c1 c2 show ?thesis
    by simp
qed

section \<open>The flags over poll cycles\<close>

lemma flags_fRepBlock_update [simp]:
  "flags (s\<lparr>fRepBlock := b\<rparr>) = (fRepGetVal s, fRepGetRaw s, b)"
  by (simp add: flags_def)

lemma flag_fields_call [simp]:
  "fRepGetVal (call env e s) = fRepGetVal s"
  "fRepGetRaw (call env e s) = fRepGetRaw s"
  "fRepBlock (call env e s) = fRepBlock s"
  by (simp_all add: call_def)

lemma flag_fields_UART_PutString [simp]:
  "fRepGetVal (UART_PutString env str s) = fRepGetVal s"
  "fRepGetRaw (UART_PutString env str s) = fRepGetRaw s"
  "fRepBlock (UART_PutString env str s) = fRepBlock s"
  by (simp_all add: UART_PutString_def)

lemma flags_process_line:
  "process_line env line s = Some s' \<Longrightarrow>
   flags s' = (1, 0, fRepBlock s) \<or> flags s' = (0, 0, fRepBlock s) \<or> flags s' = flags s"
  by (auto simp: process_line_def split_beta flags_def DMMCMD_CmdDecode_def Let_def
      dest!: flags_ProcessCmd split: if_splits option.splits prod.splits)

lemma CheckForCommand_raw_block:
  assumes "DMMCMD_CheckForCommand env s = Some s'" and "fRepGetRaw s = 0" and "fRepBlock s = 0"
  shows "fRepGetRaw s' = 0 \<and> fRepBlock s' = 0"
proof (cases "0 < out_int env (trace s @ [Ev_UART_GetString])")
  case True
  with assms(1) obtain s4 r
    where p: "process_line env (out_str env (trace s @ [Ev_UART_GetString]))
                (UART_PutString env (''Received command: '' @ out_str env (trace s @ [Ev_UART_GetString]) @ CRLF)
                   ((call env Ev_UART_GetString s)
                      \<lparr>szMsg := ''Received command: '' @ out_str env (trace s @ [Ev_UART_GetString]) @ CRLF\<rparr>))
              = Some s4"
      and q: "DMMCMD_ProcessRepeatedCmd env (s4\<lparr>fRepBlock := 0\<rparr>) = Some (r, s')"
    by (auto simp: DMMCMD_CheckForCommand_def Let_def split: option.splits)
  from flags_process_line [OF p] flags_ProcessRepeatedCmd [OF q] assms(2,3)
  show ?thesis by (auto simp: flags_def)
next
  case False
  with assms(1) obtain r
    where q: "DMMCMD_ProcessRepeatedCmd env (call env Ev_UART_GetString s) = Some (r, s')"
    by (auto simp: DMMCMD_CheckForCommand_def Let_def)
  from flags_ProcessRepeatedCmd [OF q] assms(2,3)
  show ?thesis by (auto simp: flags_def)
qed

lemma reachable_raw_block: "reachable env s \<Longrightarrow> fRepGetRaw s = 0 \<and> fRepBlock s = 0"
proof (induction rule: reachable.induct)
  case (reachable_init s)
  then show ?case by simp
next
  case (reachable_poll s s')
  then show ?case using CheckForCommand_raw_block by blast
qed

lemma ProcessCmd_MeasureRep:
  "\<exists>s'. DMMCMD_ProcessCmd env CMD_MeasureRep s = Some s' \<and> fRepGetVal s' = 1 \<and> fRepGetRaw s' = 0"
proof -
  have "flags (call env (Ev_DelayAprox10Us 1000) (snd (DMMCMD_CmdMeasureRep env s))) = (1, 0, fRepBlock s)"
    by simp
  then show ?thesis by (simp add: DMMCMD_ProcessCmd_def flags_def)
qed

lemma ProcessCmd_MeasureStop:
  "\<exists>s'. DMMCMD_ProcessCmd env CMD_MeasureStop s = Some s' \<and> fRepGetVal s' = 0 \<and> fRepGetRaw s' = 0"
proof -
  have "flags (call env (Ev_DelayAprox10Us 1000) (snd (DMMCMD_CmdMeasureStop env s))) = (0, 0, fRepBlock s)"
    by simp
  then show ?thesis by (simp add: DMMCMD_ProcessCmd_def flags_def)
qed

lemma ProcessCmd_MeasureRaw:
  "\<exists>s' rest. DMMCMD_ProcessCmd env CMD_MeasureRaw s = Some s' \<and>
        fRepGetVal s' = fRepGetVal s \<and> fRepGetRaw s' = fRepGetRaw s \<and>
        trace s' = trace s @ [Ev_DMM_SetUseCalib 0, Ev_DMM_DGetValue, Ev_DMM_SetUseCalib 1]
                     @ rest @ [Ev_DelayAprox10Us 1000] \<and>
        filter is_SetUseCalib rest = [] \<and> Ev_DMM_DGetValue \<notin> set rest"
proof -
  obtain rest
    where t: "trace (snd (DMMCMD_CmdMeasureRaw env s))
                = trace s @ [Ev_DMM_SetUseCalib 0, Ev_DMM_DGetValue, Ev_DMM_SetUseCalib 1] @ rest"
      and n: "filter is_SetUseCalib rest = []" "Ev_DMM_DGetValue \<notin> set rest"
    using CmdMeasureRaw_trace [of env s] by blast
  have f: "flags (call env (Ev_DelayAprox10Us 1000) (snd (DMMCMD_CmdMeasureRaw env s))) = flags s"
    by simp
  have p: "DMMCMD_ProcessCmd env CMD_MeasureRaw s
             = Some (call env (Ev_DelayAprox10Us 1000) (snd (DMMCMD_CmdMeasureRaw env s)))"
    by (simp add: DMMCMD_ProcessCmd_def)
  from f have g: "fRepGetVal (call env (Ev_DelayAprox10Us 1000) (snd (DMMCMD_CmdMeasureRaw env s))) = fRepGetVal s"
                 "fRepGetRaw (call env (Ev_DelayAprox10Us 1000) (snd (DMMCMD_CmdMeasureRaw env s))) = fRepGetRaw s"
    by (simp_all add: flags_def)
  from t have "trace (call env (Ev_DelayAprox10Us 1000) (snd (DMMCMD_CmdMeasureRaw env s)))
                 = trace s @ [Ev_DMM_SetUseCalib 0, Ev_DMM_DGetValue, Ev_DMM_SetUseCalib 1]
                     @ rest @ [Ev_DelayAprox10Us 1000]"
    by simp
  with p g n show ?thesis by blast
qed

text \<open>
  Two poll cycles of the test bench, on the lines \<^verbatim>\<open>DMMMeasureRep\<close> and
  \<^verbatim>\<open>DMMMeasureRaw\<close>: afterwards the calibrated flag is 1 and the raw flag is 0.
\<close>

theorem C1_flags_counterexample:
  "map_option flags
     (Option.bind
        (DMMCMD_CheckForCommand (bench_env [''DMMMeasureRep'', ''DMMMeasureRaw''] 0) bench_state)
        (DMMCMD_CheckForCommand (bench_env [''DMMMeasureRep'', ''DMMMeasureRaw''] 0)))
   = Some (1, 0, 0)"
  by code_simp

text \<open>
  C1, as the code has it: in every reachable state the raw flag is 0, so at most one
  of the two flags is set; \<^verbatim>\<open>DMMMeasureRep\<close> sets the calibrated flag and clears the
  raw flag; \<^verbatim>\<open>DMMMeasureStop\<close> clears both; \<^verbatim>\<open>DMMMeasureRaw\<close> performs one
  uncalibrated acquisition (its calls start with \<^verbatim>\<open>DMM_SetUseCalib(0)\<close>,
  \<^verbatim>\<open>DMM_DGetValue\<close>, \<^verbatim>\<open>DMM_SetUseCalib(1)\<close>, and it neither acquires nor changes
  the setting again before the delay that ends the command) and leaves both flags as
  they are; so \<^verbatim>\<open>DMMMeasureRep\<close> followed by \<^verbatim>\<open>DMMMeasureRaw\<close> leaves the
  calibrated flag set and the raw flag clear, after that one acquisition.
\<close>

theorem C1_repeated_flags:
  "(reachable env s \<longrightarrow> fRepGetRaw s = 0 \<and> \<not> (fRepGetVal s \<noteq> 0 \<and> fRepGetRaw s \<noteq> 0))
   \<and> (\<exists>s'. DMMCMD_ProcessCmd env CMD_MeasureRep s = Some s' \<and>
            fRepGetVal s' = 1 \<and> fRepGetRaw s' = 0)
   \<and> (\<exists>s'. DMMCMD_ProcessCmd env CMD_MeasureStop s = Some s' \<and>
            fRepGetVal s' = 0 \<and> fRepGetRaw s' = 0)
   \<and> (\<exists>s' rest. DMMCMD_ProcessCmd env CMD_MeasureRaw s = Some s' \<and>
            fRepGetVal s' = fRepGetVal s \<and> fRepGetRaw s' = fRepGetRaw s \<and>
            trace s' = trace s @ [Ev_DMM_SetUseCalib 0, Ev_DMM_DGetValue, Ev_DMM_SetUseCalib 1]
                         @ rest @ [Ev_DelayAprox10Us 1000] \<and>
            filter is_SetUseCalib rest = [] \<and> Ev_DMM_DGetValue \<notin> set rest)
   \<and> (\<exists>s1 s2 rest. DMMCMD_ProcessCmd env CMD_MeasureRep s = Some s1 \<and>
              DMMCMD_ProcessCmd env CMD_MeasureRaw s1 = Some s2 \<and>
              fRepGetVal s2 = 1 \<and> fRepGetRaw s2 = 0 \<and>
              trace s2 = trace s1 @ [Ev_DMM_SetUseCalib 0, Ev_DMM_DGetValue, Ev_DMM_SetUseCalib 1]
                           @ rest @ [Ev_DelayAprox10Us 1000] \<and>
              filter is_SetUseCalib rest = [] \<and> Ev_DMM_DGetValue \<notin> set rest)"
proof (intro conjI impI)
  assume "reachable env s"
  then show "fRepGetRaw s = 0" using reachable_raw_block by blast
  then show "\<not> (fRepGetVal s \<noteq> 0 \<and> fRepGetRaw s \<noteq> 0)" by simp
next
  show "\<exists>s'. DMMCMD_ProcessCmd env CMD_MeasureRep s = Some s' \<and> fRepGetVal s' = 1 \<and> fRepGetRaw s' = 0"
    by (rule ProcessCmd_MeasureRep)
next
  show "\<exists>s'. DMMCMD_ProcessCmd env CMD_MeasureStop s = Some s' \<and> fRepGetVal s' = 0 \<and> fRepGetRaw s' = 0"
    by (rule ProcessCmd_MeasureStop)
next
  show "\<exists>s' rest. DMMCMD_ProcessCmd env CMD_MeasureRaw s = Some s' \<and>
            fRepGetVal s' = fRepGetVal s \<and> fRepGetRaw s' = fRepGetRaw s \<and>
            trace s' = trace s @ [Ev_DMM_SetUseCalib 0, Ev_DMM_DGetValue, Ev_DMM_SetUseCalib 1]
                         @ rest @ [Ev_DelayAprox10Us 1000] \<and>
            filter is_SetUseCalib rest = [] \<and> Ev_DMM_DGetValue \<notin> set rest"
    by (rule ProcessCmd_MeasureRaw)
next
  obtain s1 where a: "DMMCMD_ProcessCmd env CMD_MeasureRep s = Some s1"
      and b: "fRepGetVal s1 = 1" "fRepGetRaw s1 = 0"
    using ProcessCmd_MeasureRep by blast
  obtain s2 rest where c: "DMMCMD_ProcessCmd env CMD_MeasureRaw s1 = Some s2"
      and d: "fRepGetVal s2 = fRepGetVal s1" "fRepGetRaw s2 = fRepGetRaw s1"
      and e: "trace s2 = trace s1 @ [Ev_DMM_SetUseCalib 0, Ev_DMM_DGetValue, Ev_DMM_SetUseCalib 1]
                           @ rest @ [Ev_DelayAprox10Us 1000]"
             "filter is_SetUseCalib rest = []" "Ev_DMM_DGetValue \<notin> set rest"
    using ProcessCmd_MeasureRaw [of env s1] by blast
  from b d have "fRepGetVal s2 = 1" "fRepGetRaw s2 = 0" by simp_all
  with a c e show "\<exists>s1 s2 rest. DMMCMD_ProcessCmd env CMD_MeasureRep s = Some s1 \<and>
              DMMCMD_ProcessCmd env CMD_MeasureRaw s1 = Some s2 \<and>
              fRepGetVal s2 = 1 \<and> fRepGetRaw s2 = 0 \<and>
              trace s2 = trace s1 @ [Ev_DMM_SetUseCalib 0, Ev_DMM_DGetValue, Ev_DMM_SetUseCalib 1]
                           @ rest @ [Ev_DelayAprox10Us 1000] \<and>
              filter is_SetUseCalib rest = [] \<and> Ev_DMM_DGetValue \<notin> set rest"
    by blast
qed

theorem C1_repeated_flags_witness:
  "reachable (bench_env [''DMMMeasureRep''] 0)
     (the (DMMCMD_CheckForCommand (bench_env [''DMMMeasureRep''] 0) bench_state)) \<and>
   fRepGetVal (the (DMMCMD_CheckForCommand (bench_env [''DMMMeasureRep''] 0) bench_state)) = 1 \<and>
   fRepGetRaw (the (DMMCMD_CheckForCommand (bench_env [''DMMMeasureRep''] 0) bench_state)) = 0 \<and>
   map_option (filter (\<lambda>e. e = Ev_DMM_DGetValue \<or> is_SetUseCalib e) \<circ> trace)
     (DMMCMD_ProcessCmd (bench_env [''DMMMeasureRep''] 0) CMD_MeasureRaw bench_state)
     = Some [Ev_DMM_SetUseCalib 0, Ev_DMM_DGetValue, Ev_DMM_SetUseCalib 1]"
proof -
  let ?E = "bench_env [''DMMMeasureRep''] 0"
  let ?s = "the (DMMCMD_CheckForCommand ?E bench_state)"
  have "reachable ?E bench_state"
    by (rule reachable_init) (simp_all add: bench_state_def)
  moreover have "DMMCMD_CheckForCommand ?E bench_state \<noteq> None"
    by code_simp
  then have "DMMCMD_CheckForCommand ?E bench_state = Some ?s"
    by auto
  ultimately have r: "reachable ?E ?s"
    by (rule reachable_poll)
  have v: "fRepGetVal ?s = 1"
    by code_simp
  from C1_repeated_flags [of ?E ?s] r have w: "fRepGetRaw ?s = 0"
    by blast
  have t0: "trace bench_state = []"
    by (simp add: bench_state_def)
  from C1_repeated_flags [of ?E bench_state] obtain s' rest
    where p: "DMMCMD_ProcessCmd ?E CMD_MeasureRaw bench_state = Some s'"
      and q: "trace s' = trace bench_state @ [Ev_DMM_SetUseCalib 0, Ev_DMM_DGetValue, Ev_DMM_SetUseCalib 1]
                @ rest @ [Ev_DelayAprox10Us 1000]"
      and n: "filter is_SetUseCalib rest = []" "Ev_DMM_DGetValue \<notin> set rest"
    by blast
  from n have "filter (\<lambda>e. e = Ev_DMM_DGetValue \<or> is_SetUseCalib e) rest = []"
    by (induction rest) (auto split: if_splits)
  with p q t0
  have x: "map_option (filter (\<lambda>e. e = Ev_DMM_DGetValue \<or> is_SetUseCalib e) \<circ> trace)
             (DMMCMD_ProcessCmd ?E CMD_MeasureRaw bench_state)
           = Some [Ev_DMM_SetUseCalib 0, Ev_DMM_DGetValue, Ev_DMM_SetUseCalib 1]"
    by simp
  from r v w x show ?thesis by blast
qed

section \<open>The repeated command within a poll cycle\<close>

lemma ProcessRepeatedCmd_armed:
  assumes "fRepGetVal s \<noteq> 0 \<or> fRepGetRaw s \<noteq> 0" and "fRepBlock s = 0"
      and "DMMCMD_ProcessRepeatedCmd env s = Some (r, s')"
  shows "\<exists>post. trace s' = trace s @ post @ [Ev_UART_PutString (szMsg s')] \<and>
           Ev_DMM_DGetValue \<in> set post \<and> uart_out post = []"
proof (cases "fRepGetRaw s \<noteq> 0")
  case True
  with assms show ?thesis
    by (auto simp: DMMCMD_ProcessRepeatedCmd_def Let_def split_beta uart_out_append
        split: if_splits option.splits dest!: PmodOLEDDisplay_Some)
next
  case False
  with assms show ?thesis
    by (auto simp: DMMCMD_ProcessRepeatedCmd_def Let_def split_beta uart_out_append
        split: if_splits option.splits dest!: PmodOLEDDisplay_Some)
qed

lemma process_line_trace_end:
  "process_line env line s = Some s' \<Longrightarrow> \<exists>pre. trace s' = pre @ [Ev_DelayAprox10Us 1000]"
  by (auto simp: process_line_def split_beta dest: ProcessCmd_trace_end)

lemma CheckForCommand_line:
  assumes "0 < out_int env (trace s @ [Ev_UART_GetString])"
      and "DMMCMD_CheckForCommand env s = Some s'"
  shows "\<exists>s4 r pre. trace s4 = pre @ [Ev_DelayAprox10Us 1000] \<and>
           DMMCMD_ProcessRepeatedCmd env (s4\<lparr>fRepBlock := 0\<rparr>) = Some (r, s')"
proof -
  from assms obtain s4 r
    where p: "process_line env (out_str env (trace s @ [Ev_UART_GetString]))
                (UART_PutString env (''Received command: '' @ out_str env (trace s @ [Ev_UART_GetString]) @ CRLF)
                   ((call env Ev_UART_GetString s)
                      \<lparr>szMsg := ''Received command: '' @ out_str env (trace s @ [Ev_UART_GetString]) @ CRLF\<rparr>))
              = Some s4"
      and q: "DMMCMD_ProcessRepeatedCmd env (s4\<lparr>fRepBlock := 0\<rparr>) = Some (r, s')"
    by (auto simp: DMMCMD_CheckForCommand_def Let_def split: option.splits)
  from process_line_trace_end [OF p] q show ?thesis by blast
qed

lemma CheckForCommand_line_armed:
  assumes "0 < out_int env (trace s @ [Ev_UART_GetString])"
      and "DMMCMD_CheckForCommand env s = Some s'"
      and "fRepGetVal s' \<noteq> 0 \<or> fRepGetRaw s' \<noteq> 0"
  shows "fRepBlock s' = 0 \<and>
         (\<exists>pre post. trace s' = pre @ [Ev_DelayAprox10Us 1000] @ post @ [Ev_UART_PutString (szMsg s')] \<and>
            Ev_DMM_DGetValue \<in> set post \<and> uart_out post = [])"
proof -
  from CheckForCommand_line [OF assms(1,2)] obtain s4 r pre
    where t: "trace s4 = pre @ [Ev_DelayAprox10Us 1000]"
      and q: "DMMCMD_ProcessRepeatedCmd env (s4\<lparr>fRepBlock := 0\<rparr>) = Some (r, s')"
    by blast
  from flags_ProcessRepeatedCmd [OF q]
  have f: "fRepGetVal s' = fRepGetVal s4" "fRepGetRaw s' = fRepGetRaw s4" "fRepBlock s' = 0"
    by (simp_all add: flags_def)
  with assms(3) have a: "fRepGetVal (s4\<lparr>fRepBlock := 0\<rparr>) \<noteq> 0 \<or> fRepGetRaw (s4\<lparr>fRepBlock := 0\<rparr>) \<noteq> 0"
    by simp
  have b: "fRepBlock (s4\<lparr>fRepBlock := 0\<rparr>) = 0" by simp
  from ProcessRepeatedCmd_armed [OF a b q] obtain post
    where "trace s' = trace (s4\<lparr>fRepBlock := 0\<rparr>) @ post @ [Ev_UART_PutString (szMsg s')]"
      and "Ev_DMM_DGetValue \<in> set post" and "uart_out post = []"
    by blast
  with t f(3) show ?thesis by auto
qed

lemma CheckForCommand_idle_armed:
  assumes "\<not> 0 < out_int env (trace s @ [Ev_UART_GetString])"
      and "DMMCMD_CheckForCommand env s = Some s'"
      and "fRepGetVal s \<noteq> 0 \<or> fRepGetRaw s \<noteq> 0" and "fRepBlock s = 0"
  shows "\<exists>post. trace s' = trace s @ [Ev_UART_GetString] @ post @ [Ev_UART_PutString (szMsg s')] \<and>
           Ev_DMM_DGetValue \<in> set post \<and> uart_out post = []"
proof -
  let ?s1 = "call env Ev_UART_GetString s"
  from assms(1,2) obtain r where q: "DMMCMD_ProcessRepeatedCmd env ?s1 = Some (r, s')"
    by (auto simp: DMMCMD_CheckForCommand_def Let_def)
  have a: "fRepGetVal ?s1 \<noteq> 0 \<or> fRepGetRaw ?s1 \<noteq> 0" using assms(3) by simp
  have b: "fRepBlock ?s1 = 0" using assms(4) by simp
  from ProcessRepeatedCmd_armed [OF a b q] show ?thesis by simp
qed

text \<open>
  Two poll cycles of the test bench, on the lines \<^verbatim>\<open>DMMMeasureRep\<close> and
  \<^verbatim>\<open>DMMMeasureAvg\<close>: in each cycle the response of the command is followed at once
  by a line of the repeated command.
\<close>

theorem C2_same_cycle_counterexample:
  "map_option (uart_out \<circ> trace)
     (Option.bind
        (DMMCMD_CheckForCommand (bench_env [''DMMMeasureRep'', ''DMMMeasureAvg''] 0) bench_state)
        (DMMCMD_CheckForCommand (bench_env [''DMMMeasureRep'', ''DMMMeasureAvg''] 0)))
   = Some [''Received command: DMMMeasureRep'' @ CRLF,
           ''OK, Measure repeated'' @ CRLF,
           ''Value: 5 V'' @ CRLF,
           ''Received command: DMMMeasureAvg'' @ CRLF,
           ''Avg. Value: 5 V'' @ CRLF,
           ''Value: 5 V'' @ CRLF]"
  by code_simp

text \<open>
  C2, as the code has it: no statement sets the block flag, so it is 0 in every
  reachable state and suppresses nothing. A poll cycle that received a line clears the
  flag after processing the command and then runs the repeated command: when a
  repeated-mode flag is set at the end of the cycle, the calls after the command's
  delay are an acquisition and then, with no other UART output in between, the line
  of the repeated command. A cycle without a line, with a flag set, acquires and
  sends a line as well.
\<close>

theorem C2_block_flag_never_suppresses:
  "(reachable env s \<longrightarrow> fRepBlock s = 0)
   \<and> (0 < out_int env (trace s @ [Ev_UART_GetString]) \<and>
       DMMCMD_CheckForCommand env s = Some s' \<and>
       (fRepGetVal s' \<noteq> 0 \<or> fRepGetRaw s' \<noteq> 0) \<longrightarrow>
        fRepBlock s' = 0 \<and>
        (\<exists>pre post. trace s' = pre @ [Ev_DelayAprox10Us 1000] @ post @ [Ev_UART_PutString (szMsg s')] \<and>
           Ev_DMM_DGetValue \<in> set post \<and> uart_out post = []))
   \<and> (\<not> 0 < out_int env (trace s @ [Ev_UART_GetString]) \<and>
       DMMCMD_CheckForCommand env s = Some s' \<and>
       (fRepGetVal s \<noteq> 0 \<or> fRepGetRaw s \<noteq> 0) \<and> fRepBlock s = 0 \<longrightarrow>
        (\<exists>post. trace s' = trace s @ [Ev_UART_GetString] @ post @ [Ev_UART_PutString (szMsg s')] \<and>
           Ev_DMM_DGetValue \<in> set post \<and> uart_out post = []))"
proof (intro conjI impI)
  assume "reachable env s"
  then show "fRepBlock s = 0" using reachable_raw_block by blast
next
  assume h: "0 < out_int env (trace s @ [Ev_UART_GetString]) \<and>
       DMMCMD_CheckForCommand env s = Some s' \<and>
       (fRepGetVal s' \<noteq> 0 \<or> fRepGetRaw s' \<noteq> 0)"
  then show "fRepBlock s' = 0"
    using CheckForCommand_line_armed [of env s s'] by blast
  from h show "\<exists>pre post. trace s' = pre @ [Ev_DelayAprox10Us 1000] @ post @ [Ev_UART_PutString (szMsg s')] \<and>
           Ev_DMM_DGetValue \<in> set post \<and> uart_out post = []"
    using CheckForCommand_line_armed [of env s s'] by blast
next
  assume "\<not> 0 < out_int env (trace s @ [Ev_UART_GetString]) \<and>
       DMMCMD_CheckForCommand env s = Some s' \<and>
       (fRepGetVal s \<noteq> 0 \<or> fRepGetRaw s \<noteq> 0) \<and> fRepBlock s = 0"
  then show "\<exists>post. trace s' = trace s @ [Ev_UART_GetString] @ post @ [Ev_UART_PutString (szMsg s')] \<and>
           Ev_DMM_DGetValue \<in> set post \<and> uart_out post = []"
    using CheckForCommand_idle_armed [of env s s'] by blast
qed


theorem C2_block_flag_never_suppresses_witness:
  "reachable (bench_env [''DMMMeasureRep'', ''DMMMeasureAvg''] 0)
     (the (DMMCMD_CheckForCommand (bench_env [''DMMMeasureRep'', ''DMMMeasureAvg''] 0) bench_state)) \<and>
   fRepBlock (the (DMMCMD_CheckForCommand (bench_env [''DMMMeasureRep'', ''DMMMeasureAvg''] 0) bench_state)) = 0 \<and>
   0 < out_int (bench_env [''DMMMeasureRep'', ''DMMMeasureAvg''] 0)
         (trace (the (DMMCMD_CheckForCommand (bench_env [''DMMMeasureRep'', ''DMMMeasureAvg''] 0) bench_state))
            @ [Ev_UART_GetString]) \<and>
   fRepGetVal (the (DMMCMD_CheckForCommand (bench_env [''DMMMeasureRep'', ''DMMMeasureAvg''] 0)
      (the (DMMCMD_CheckForCommand (bench_env [''DMMMeasureRep'', ''DMMMeasureAvg''] 0) bench_state)))) \<noteq> 0 \<and>
   fRepBlock (the (DMMCMD_CheckForCommand (bench_env [''DMMMeasureRep'', ''DMMMeasureAvg''] 0)
      (the (DMMCMD_CheckForCommand (bench_env [''DMMMeasureRep'', ''DMMMeasureAvg''] 0) bench_state)))) = 0 \<and>
   \<not> 0 < out_int (bench_env [] 0) (trace (bench_state\<lparr>fRepGetVal := 1\<rparr>) @ [Ev_UART_GetString]) \<and>
   fRepGetVal (bench_state\<lparr>fRepGetVal := 1\<rparr>) \<noteq> 0 \<and>
   fRepBlock (bench_state\<lparr>fRepGetVal := 1\<rparr>) = 0 \<and>
   last (trace (the (DMMCMD_CheckForCommand (bench_env [] 0) (bench_state\<lparr>fRepGetVal := 1\<rparr>))))
     = Ev_UART_PutString (szMsg (the (DMMCMD_CheckForCommand (bench_env [] 0) (bench_state\<lparr>fRepGetVal := 1\<rparr>))))"
proof -
  let ?E = "bench_env [''DMMMeasureRep'', ''DMMMeasureAvg''] 0"
  let ?s1 = "the (DMMCMD_CheckForCommand ?E bench_state)"
  let ?s2 = "the (DMMCMD_CheckForCommand ?E ?s1)"
  let ?F = "bench_env [] 0"
  let ?t = "bench_state\<lparr>fRepGetVal := 1\<rparr>"
  let ?t1 = "the (DMMCMD_CheckForCommand ?F ?t)"
  have "reachable ?E bench_state"
    by (rule reachable_init) (simp_all add: bench_state_def)
  moreover have "DMMCMD_CheckForCommand ?E bench_state \<noteq> None"
    by code_simp
  then have "DMMCMD_CheckForCommand ?E bench_state = Some ?s1"
    by auto
  ultimately have r: "reachable ?E ?s1"
    by (rule reachable_poll)
  have l: "0 < out_int ?E (trace ?s1 @ [Ev_UART_GetString])"
    by code_simp
  have "DMMCMD_CheckForCommand ?E ?s1 \<noteq> None"
    by code_simp
  then have c: "DMMCMD_CheckForCommand ?E ?s1 = Some ?s2"
    by auto
  have a: "fRepGetVal ?s2 \<noteq> 0"
    by code_simp
  have n: "\<not> 0 < out_int ?F (trace ?t @ [Ev_UART_GetString])"
    by code_simp
  have "DMMCMD_CheckForCommand ?F ?t \<noteq> None"
    by code_simp
  then have d: "DMMCMD_CheckForCommand ?F ?t = Some ?t1"
    by auto
  have g: "fRepGetVal ?t \<noteq> 0" "fRepBlock ?t = 0"
    by (simp_all add: bench_state_def)
  from C2_block_flag_never_suppresses [of ?E ?s1 ?s2] r l c a
  have x: "fRepBlock ?s1 = 0" "fRepBlock ?s2 = 0"
    by blast+
  from C2_block_flag_never_suppresses [of ?F ?t ?t1] n d g
  obtain post where "trace ?t1 = trace ?t @ [Ev_UART_GetString] @ post @ [Ev_UART_PutString (szMsg ?t1)]"
    by blast
  then have y: "last (trace ?t1) = Ev_UART_PutString (szMsg ?t1)"
    by simp
  from r l a n g x y show ?thesis by blast
qed

section \<open>The DMMImportCalib handler\<close>

lemma CmdImportCalib_missing_argument:
  assumes "arg0 = None \<or> arg1 = None \<or> arg2 = None"
  shows "fst (DMMCMD_CmdImportCalib env arg0 arg1 arg2 s) = ERRVAL_CMD_WRONGPARAMS \<and>
         trace (snd (DMMCMD_CmdImportCalib env arg0 arg1 arg2 s))
           = trace s @ [Ev_ERRORS_GetPrefixedMessageString ERRVAL_CMD_WRONGPARAMS (Some []) (szMsg s),
                        Ev_UART_PutString (out_str env (trace s @
                          [Ev_ERRORS_GetPrefixedMessageString ERRVAL_CMD_WRONGPARAMS (Some []) (szMsg s)]))]"
  using assms
  by (auto simp: DMMCMD_CmdImportCalib_def Let_def split_beta ERRVAL_CMD_WRONGPARAMS_def
      ERRVAL_SUCCESS_def split: option.splits)

lemma sscanf_d_blank: "sscanf_d '' '' = (- 1, None)"
  by (simp add: sscanf_d_def isspace_def)

lemma sscanf_f_blank: "sscanf_f env '' '' = (- 1, None)"
  by (simp add: sscanf_f_def isspace_def)

lemma CmdImportCalib_blank_arguments:
  "trace (snd (DMMCMD_CmdImportCalib env (Some '' '') (Some '' '') (Some '' '') s))
     = trace s @ [Ev_CALIB_ImportCalibCoefficients (indet_int env) (indet_val env) (indet_val env),
                  Ev_ERRORS_GetPrefixedMessageString
                    (out_code env (trace s @
                       [Ev_CALIB_ImportCalibCoefficients (indet_int env) (indet_val env) (indet_val env)]))
                    (Some []) (szMsg s),
                  Ev_UART_PutString (out_str env (trace s @
                    [Ev_CALIB_ImportCalibCoefficients (indet_int env) (indet_val env) (indet_val env),
                     Ev_ERRORS_GetPrefixedMessageString
                       (out_code env (trace s @
                          [Ev_CALIB_ImportCalibCoefficients (indet_int env) (indet_val env) (indet_val env)]))
                       (Some []) (szMsg s)]))]"
  by (simp add: DMMCMD_CmdImportCalib_def Let_def split_beta sscanf_d_blank sscanf_f_blank)

lemma Decode_DMMImportCalib_blank:
  "DMMCMD_CmdDecode ''DMMImportCalib  , , '' s =
     (CMD_ImportCalib, s\<lparr>lastErr := [], strtok_save := '' , , ''\<rparr>)"
  by (simp add: DMMCMD_CmdDecode_def strtok_def uartCommands_def)

lemma place_args_same: "place_args ord t t t = (t, t, t)"
  by (cases ord) simp_all

lemma ProcessCmd_switch_ImportCalib_blank:
  "strtok_save s = '' , , '' \<Longrightarrow>
   ProcessCmd_switch env CMD_ImportCalib s =
     Some (snd (DMMCMD_CmdImportCalib env (Some '' '') (Some '' '') (Some '' '')
                  (s\<lparr>strtok_save := []\<rparr>)))"
  by (simp add: DMMCMD_CmdGetNextArg_def strtok_def place_args_same)

text \<open>
  C9 fails on a blank argument. For the string \<^verbatim>\<open>" "\<close> \<^verbatim>\<open>sscanf\<close> returns
  \<^verbatim>\<open>EOF\<close>, which \<^verbatim>\<open>!sscanf(...)\<close> does not take for a failure: processing the
  line \<^verbatim>\<open>DMMImportCalib\<close>, two spaces, \<^verbatim>\<open>, , \<close> (three arguments of one space
  each, in whatever order they are evaluated) calls
  \<^verbatim>\<open>CALIB_ImportCalibCoefficients\<close> with the three never-assigned locals.
\<close>

theorem C9_blank_arguments_reach_import:
  "\<exists>s'. process_line env ''DMMImportCalib  , , '' s = Some s' \<and>
        Ev_CALIB_ImportCalibCoefficients (indet_int env) (indet_val env) (indet_val env)
          \<in> set (trace s')"
proof -
  have "ProcessCmd_switch env CMD_ImportCalib (s\<lparr>lastErr := [], strtok_save := '' , , ''\<rparr>)
          = Some (snd (DMMCMD_CmdImportCalib env (Some '' '') (Some '' '') (Some '' '')
                         (s\<lparr>lastErr := [], strtok_save := '' , , '', strtok_save := []\<rparr>)))"
    by (rule ProcessCmd_switch_ImportCalib_blank) simp
  then show ?thesis
    by (simp add: process_line_def Decode_DMMImportCalib_blank DMMCMD_ProcessCmd_def
        CmdImportCalib_blank_arguments del: ProcessCmd_switch.simps)
qed

text \<open>The same line in one poll cycle of the test bench.\<close>

lemma C9_bench_run:
  "map_option trace
     (DMMCMD_CheckForCommand (bench_env [''DMMImportCalib  , , ''] 0) bench_state)
   = Some [Ev_UART_GetString,
           Ev_UART_PutString (''Received command: DMMImportCalib  , , '' @ CRLF),
           Ev_CALIB_ImportCalibCoefficients 12345 777 777,
           Ev_ERRORS_GetPrefixedMessageString 0 (Some [])
             (''Received command: DMMImportCalib  , , '' @ CRLF),
           Ev_UART_PutString (''OK, Received command: DMMImportCalib  , , '' @ CRLF @ CRLF),
           Ev_DelayAprox10Us 1000]"
  by code_simp

end
